theory Spec2Isabelle
  imports Complex_Main "HOL-Library.AList"
begin

text \<open>
  A shallow embedding of the core of \<open>server.js\<close>: the CRS resolver \<open>detectCRS\<close>,
  the reprojection \<open>reprojectGeoJSON\<close>, the attribute join of \<open>POST /api/merge\<close> and
  the interpolation orchestrator of \<open>POST /api/interpolate\<close>. What lies outside the
  repository is a parameter: the transforms of \<open>proj4\<close>, the spawned worker and the file
  system, and the conversions between numbers and text of the runtime.
\<close>

section \<open>JavaScript values used by \<open>server.js\<close>\<close>

text \<open>
  A JavaScript number is modelled as an exact real, one of the two infinities, or \<open>NaN\<close>.
  Rounding to binary64 and the sign of zero are not modelled; the functions below only test
  for \<open>NaN\<close>, compare against constants, and take minima, maxima and one difference.
\<close>

datatype jsnum = NaN | NegInf | Fin real | PosInf

fun isNaN :: "jsnum \<Rightarrow> bool" where
  "isNaN NaN = True"
| "isNaN _ = False"

text \<open>\<open>Math.abs\<close>.\<close>

fun js_abs :: "jsnum \<Rightarrow> jsnum" where
  "js_abs NaN = NaN"
| "js_abs NegInf = PosInf"
| "js_abs PosInf = PosInf"
| "js_abs (Fin r) = Fin \<bar>r\<bar>"

text \<open>The operator \<open>a > b\<close>: false as soon as one side is \<open>NaN\<close>.\<close>

fun js_gt :: "jsnum \<Rightarrow> jsnum \<Rightarrow> bool" where
  "js_gt NaN _ = False"
| "js_gt _ NaN = False"
| "js_gt NegInf _ = False"
| "js_gt _ PosInf = False"
| "js_gt PosInf _ = True"
| "js_gt (Fin a) NegInf = True"
| "js_gt (Fin a) (Fin b) = (b < a)"

text \<open>Binary \<open>Math.min\<close> and \<open>Math.max\<close>: \<open>NaN\<close> is contagious.\<close>

fun js_min :: "jsnum \<Rightarrow> jsnum \<Rightarrow> jsnum" where
  "js_min NaN _ = NaN"
| "js_min _ NaN = NaN"
| "js_min a b = (if js_gt a b then b else a)"

fun js_max :: "jsnum \<Rightarrow> jsnum \<Rightarrow> jsnum" where
  "js_max NaN _ = NaN"
| "js_max _ NaN = NaN"
| "js_max a b = (if js_gt b a then b else a)"

text \<open>The operator \<open>a - b\<close>.\<close>

fun js_sub :: "jsnum \<Rightarrow> jsnum \<Rightarrow> jsnum" where
  "js_sub NaN _ = NaN"
| "js_sub _ NaN = NaN"
| "js_sub PosInf PosInf = NaN"
| "js_sub NegInf NegInf = NaN"
| "js_sub PosInf _ = PosInf"
| "js_sub NegInf _ = NegInf"
| "js_sub (Fin a) PosInf = NegInf"
| "js_sub (Fin a) NegInf = PosInf"
| "js_sub (Fin a) (Fin b) = Fin (a - b)"

text \<open>Division by a finite positive constant, as in \<open>(max - min) / 4\<close>.\<close>

fun js_div_pos :: "jsnum \<Rightarrow> real \<Rightarrow> jsnum" where
  "js_div_pos (Fin a) d = Fin (a / d)"
| "js_div_pos n d = n"

text \<open>
  Scalar attribute values, as they arrive in a JSON body. A missing property
  (\<open>undefined\<close>) is the \<open>None\<close> of a lookup.
\<close>

datatype jsval = JNull | JBool bool | JNum jsnum | JStr string

text \<open>
  A JavaScript object is an association list in property order, with distinct keys;
  \<open>obj[k]\<close> is \<open>map_of\<close>. (Properties inherited from \<open>Object.prototype\<close> are not
  modelled.)
\<close>

type_synonym jsobject = "(string \<times> jsval) list"

text \<open>
  Nested coordinate arrays of a GeoJSON geometry: a number, or an array of further values.
\<close>

datatype coords = CNum jsnum | CArr "coords list"

record geojson_geometry =
  gtype :: string
  coordinates :: "coords option"

record geojson_feature =
  geometry :: "geojson_geometry option"
  properties :: jsobject

record feature_collection =
  ctype :: string
  features :: "geojson_feature list"

text \<open>Truthiness of \<open>feature.geometry.coordinates\<close>.\<close>

fun truthy_coords :: "coords option \<Rightarrow> bool" where
  "truthy_coords None = False"
| "truthy_coords (Some (CArr cs)) = True"
| "truthy_coords (Some (CNum NaN)) = False"
| "truthy_coords (Some (CNum (Fin r))) = (r \<noteq> 0)"
| "truthy_coords (Some (CNum _)) = True"

text \<open>Exceptions that reach the \<open>catch\<close> of a handler.\<close>

datatype js_exception = TypeError | IOError

section \<open>Strings\<close>

text \<open>
  Strings are sequences of 8-bit characters read as ASCII: white space is the ASCII part of
  the class \<open>\s\<close> (tab, line feed, vertical tab, form feed, carriage return, space), and
  lower-casing maps \<open>A\<close>..\<open>Z\<close> to \<open>a\<close>..\<open>z\<close>.
\<close>

definition is_space :: "char \<Rightarrow> bool" where
  "is_space c \<longleftrightarrow> c \<in> set [CHR 0x09, CHR 0x0A, CHR 0x0B, CHR 0x0C, CHR 0x0D, CHR '' '']"

definition lower_char :: "char \<Rightarrow> char" where
  "lower_char c =
     (case map_of (zip ''ABCDEFGHIJKLMNOPQRSTUVWXYZ'' ''abcdefghijklmnopqrstuvwxyz'') c of
        Some d \<Rightarrow> d
      | None \<Rightarrow> c)"

definition upper_char :: "char \<Rightarrow> char" where
  "upper_char c =
     (case map_of (zip ''abcdefghijklmnopqrstuvwxyz'' ''ABCDEFGHIJKLMNOPQRSTUVWXYZ'') c of
        Some d \<Rightarrow> d
      | None \<Rightarrow> c)"

definition toLowerCase :: "string \<Rightarrow> string" where
  "toLowerCase s = map lower_char s"

definition trim :: "string \<Rightarrow> string" where
  "trim s = rev (dropWhile is_space (rev (dropWhile is_space s)))"

text \<open>\<open>String.prototype.startsWith\<close>.\<close>

primrec startsWith :: "string \<Rightarrow> string \<Rightarrow> bool" where
  "startsWith s [] = True"
| "startsWith s (c # cs) = (case s of [] \<Rightarrow> False | d # ds \<Rightarrow> d = c \<and> startsWith ds cs)"

text \<open>\<open>String.prototype.includes\<close>.\<close>

fun js_includes :: "string \<Rightarrow> string \<Rightarrow> bool" where
  "js_includes [] sub = (sub = [])"
| "js_includes (c # cs) sub = (startsWith (c # cs) sub \<or> js_includes cs sub)"

definition is_digit :: "char \<Rightarrow> bool" where
  "is_digit c \<longleftrightarrow> c \<in> set ''0123456789''"

definition digit_value :: "char \<Rightarrow> nat" where
  "digit_value c = (case map_of (zip ''0123456789'' [0, 1, 2, 3, 4, 5, 6, 7, 8, 9]) c of
                      Some d \<Rightarrow> d | None \<Rightarrow> 0)"

text \<open>
  \<open>parseInt\<close> on a string of decimal digits, as an exact natural number. (A JavaScript
  number is exact for every digit string of up to fifteen digits; a zone has two.)
\<close>

definition parseInt :: "string \<Rightarrow> nat" where
  "parseInt ds = fold (\<lambda>c n. 10 * n + digit_value c) ds 0"

text \<open>The decimal text of a natural number, as a template literal prints an integer.\<close>

fun string_of_nat :: "nat \<Rightarrow> string" where
  "string_of_nat n =
     (if n < 10 then [''0123456789'' ! n]
      else string_of_nat (n div 10) @ [''0123456789'' ! (n mod 10)])"

declare string_of_nat.simps [simp del]

text \<open>
  One match of \<open>/\s*cm\s*/i\<close> at the start of a string: the rest after the match. Both
  runs of white space are greedy, and giving characters back never helps, since white space
  is neither \<open>c\<close> nor part of what follows the pattern.
\<close>

definition match_cm :: "string \<Rightarrow> string option" where
  "match_cm s =
     (case dropWhile is_space s of
        c # m # rest \<Rightarrow>
          if lower_char c = CHR ''c'' \<and> lower_char m = CHR ''m''
          then Some (dropWhile is_space rest)
          else None
      | _ \<Rightarrow> None)"

text \<open>\<open>s.replace(/\s*cm\s*/gi, '')\<close>: scan from the left, delete each match, resume after it.\<close>

function strip_cm :: "string \<Rightarrow> string" where
  "strip_cm [] = []"
| "strip_cm (c # cs) =
     (case match_cm (c # cs) of Some r \<Rightarrow> strip_cm r | None \<Rightarrow> c # strip_cm cs)"
  by pat_completeness auto
termination
proof (relation "measure length")
  show "wf (measure length)"
    by simp
next
  fix c :: char and cs r :: string
  assume "match_cm (c # cs) = Some r"
  then obtain a b rest where d: "dropWhile is_space (c # cs) = a # b # rest"
    and r: "r = dropWhile is_space rest"
    by (auto simp: match_cm_def split: list.splits if_splits)
  have "length (dropWhile is_space (c # cs)) \<le> length (c # cs)"
    by (rule length_dropWhile_le)
  moreover have "length r \<le> length rest"
    unfolding r by (rule length_dropWhile_le)
  ultimately show "(r, c # cs) \<in> measure length"
    using d by simp
next
  fix c :: char and cs :: string
  show "(cs, c # cs) \<in> measure length"
    by simp
qed

section \<open>The CRS resolver: \<open>detectCRS\<close>\<close>

text \<open>
  One match of \<open>/Zone[_\s]*(\d+)([NS])/i\<close> at the start of a string: the two groups. The
  separator run and the digit run are greedy, and giving characters back never helps: a
  separator is not a digit, and a digit is not a hemisphere letter.
\<close>

definition zone_at :: "string \<Rightarrow> (string \<times> char) option" where
  "zone_at s =
     (case s of
        c1 # c2 # c3 # c4 # r \<Rightarrow>
          if toLowerCase [c1, c2, c3, c4] = ''zone''
          then (let r1 = dropWhile (\<lambda>c. c = CHR ''_'' \<or> is_space c) r;
                    ds = takeWhile is_digit r1
                in case dropWhile is_digit r1 of
                     h # _ \<Rightarrow> if ds \<noteq> [] \<and> h \<in> set ''NSns'' then Some (ds, h) else None
                   | [] \<Rightarrow> None)
          else None
      | _ \<Rightarrow> None)"

text \<open>\<open>prjString.match(...)\<close>: the match at the leftmost position that has one.\<close>

fun zoneMatch :: "string \<Rightarrow> (string \<times> char) option" where
  "zoneMatch [] = None"
| "zoneMatch (c # cs) = (case zone_at (c # cs) of Some g \<Rightarrow> Some g | None \<Rightarrow> zoneMatch cs)"

definition detectCRS :: "string option \<Rightarrow> string" where
  "detectCRS prj =
     (case prj of
        None \<Rightarrow> ''EPSG:4674''
      | Some prjString \<Rightarrow>
          if prjString = [] then ''EPSG:4674''
          else if js_includes prjString ''UTM'' \<or> js_includes prjString ''Transverse_Mercator''
          then (case zoneMatch prjString of
                  Some (digits, letter) \<Rightarrow>
                    (let zone = parseInt digits;
                         hemisphere = upper_char letter;
                         epsgCode = (if hemisphere = CHR ''S'' then 32700 + zone else 32600 + zone)
                     in ''EPSG:'' @ string_of_nat epsgCode)
                | None \<Rightarrow>
                    if js_includes prjString ''Zone_21S'' \<or> js_includes prjString ''Zone 21S''
                    then ''EPSG:32721''
                    else ''UTM'')
          else if js_includes prjString ''SIRGAS'' \<or> js_includes prjString ''4674''
                  \<or> js_includes prjString ''GCS_SIRGAS2000''
          then ''EPSG:4674''
          else if (js_includes prjString ''WGS84'' \<or> js_includes prjString ''4326''
                   \<or> js_includes prjString ''GCS_WGS_1984'')
                  \<and> \<not> js_includes prjString ''UTM'' \<and> \<not> js_includes prjString ''PROJCS''
          then ''EPSG:4326''
          else if js_includes prjString ''PROJCS'' then ''PROJECTED''
          else ''EPSG:4674'')"

section \<open>Coordinate reprojection: \<open>reprojectGeoJSON\<close>\<close>

text \<open>
  Every \<open>console\<close> call of \<open>reprojectGeoJSON\<close> is one event, named after its level and
  carrying the values its message interpolates.
\<close>

datatype console_event =
  Warn_proj4_unavailable
| Log_converting string
| Warn_projected_unidentified
| Warn_unsupported string
| Warn_create_failed string string
| Log_retry_direct
| Error_retry_failed
| Warn_NaN_coordinate jsnum jsnum
| Warn_NaN_result jsnum jsnum
| Error_out_of_range jsnum jsnum
| Error_original_coordinate jsnum jsnum
| Log_trying_swap
| Warn_transform_error jsnum jsnum

text \<open>
  The library \<open>proj4\<close> is not part of the repository. A transform object is its
  \<open>forward\<close> function, \<open>None\<close> when it throws; the library is the constructor
  \<open>proj4(from, to)\<close>, \<open>None\<close> when it throws; the global \<open>proj4\<close> itself is
  \<open>None\<close> when \<open>require\<close> failed.
\<close>

type_synonym transform = "jsnum \<Rightarrow> jsnum \<Rightarrow> (jsnum \<times> jsnum) option"

type_synonym proj4_lib = "string \<Rightarrow> string \<Rightarrow> transform option"

text \<open>The body of the leaf branch of \<open>transformCoordinates\<close>, for \<open>coords = [x, y, ...rest]\<close>.\<close>

definition transformLeaf ::
  "transform \<Rightarrow> jsnum \<Rightarrow> jsnum \<Rightarrow> coords list \<Rightarrow> coords \<times> console_event list" where
  "transformLeaf T x y rest =
     (if isNaN x \<or> isNaN y then (CArr (CNum x # CNum y # rest), [Warn_NaN_coordinate x y])
      else case T x y of
        None \<Rightarrow> (CArr (CNum x # CNum y # rest), [Warn_transform_error x y])
      | Some (lon, lat) \<Rightarrow>
          if isNaN lon \<or> isNaN lat
          then (CArr (CNum x # CNum y # rest), [Warn_NaN_result x y])
          else if js_gt (js_abs lon) (Fin 180) \<or> js_gt (js_abs lat) (Fin 90)
          then (if js_gt (js_abs lat) (Fin 180) \<or> js_gt (js_abs lon) (Fin 90)
                then (CArr [CNum lat, CNum lon],
                      [Error_out_of_range lon lat, Error_original_coordinate x y, Log_trying_swap])
                else (CArr [CNum lon, CNum lat],
                      [Error_out_of_range lon lat, Error_original_coordinate x y]))
          else (CArr [CNum lon, CNum lat], []))"

fun transformCoordinates :: "transform \<Rightarrow> coords \<Rightarrow> coords \<times> console_event list" where
  "transformCoordinates T (CArr (CNum x # CNum y # rest)) = transformLeaf T x y rest"
| "transformCoordinates T (CArr cs) =
     (let rs = map (transformCoordinates T) cs in (CArr (map fst rs), concat (map snd rs)))"
| "transformCoordinates T (CNum n) = (CNum n, [])"

text \<open>The function mapped over \<open>geojson.features\<close>.\<close>

definition reprojectFeature ::
  "transform \<Rightarrow> geojson_feature \<Rightarrow> geojson_feature \<times> console_event list" where
  "reprojectFeature T f =
     (case geometry f of
        None \<Rightarrow> (f, [])
      | Some g \<Rightarrow>
          if \<not> truthy_coords (coordinates g) then (f, [])
          else case coordinates g of
            None \<Rightarrow> (f, [])
          | Some c \<Rightarrow>
              (let (c', evs) = transformCoordinates T c
               in (f\<lparr>geometry := Some (g\<lparr>coordinates := Some c'\<rparr>)\<rparr>, evs)))"

definition reprojectFeatures ::
  "transform \<Rightarrow> feature_collection \<Rightarrow> feature_collection \<times> console_event list" where
  "reprojectFeatures T geojson =
     (let rs = map (reprojectFeature T) (features geojson)
      in (geojson\<lparr>features := map fst rs\<rparr>, concat (map snd rs)))"

text \<open>
  The \<open>try\<close> block that builds the transform. Its result is the transform, an early
  \<open>return geojson\<close>, or the exception of the constructor, together with what was
  written to the console.
\<close>

datatype 'a attempt = Built 'a | Return_input | Thrown

definition buildTransform ::
  "proj4_lib \<Rightarrow> string \<Rightarrow> string \<Rightarrow> transform attempt \<times> console_event list" where
  "buildTransform proj4 fromCRS toCRS =
     (let ctor = (\<lambda>a b evs. case proj4 a b of None \<Rightarrow> (Thrown, evs) | Some T \<Rightarrow> (Built T, evs))
      in if fromCRS = ''EPSG:32721'' \<or> fromCRS = ''32721''
         then ctor ''EPSG:32721'' ''EPSG:4326'' [Log_converting ''EPSG:32721'']
         else if startsWith fromCRS ''EPSG:327'' \<or> startsWith fromCRS ''EPSG:326''
         then ctor fromCRS ''EPSG:4326'' [Log_converting fromCRS]
         else if fromCRS = ''EPSG:4674'' \<or> fromCRS = ''4674''
         then ctor ''EPSG:4674'' ''EPSG:4326'' [Log_converting ''EPSG:4674'']
         else if fromCRS = ''UTM'' \<or> fromCRS = ''PROJECTED''
         then (Return_input, [Warn_projected_unidentified])
         else ctor fromCRS toCRS [Warn_unsupported fromCRS])"

definition reprojectGeoJSON ::
  "proj4_lib option \<Rightarrow> feature_collection \<Rightarrow> string \<Rightarrow> string
     \<Rightarrow> feature_collection \<times> console_event list" where
  "reprojectGeoJSON proj4_global geojson fromCRS toCRS =
     (case proj4_global of
        None \<Rightarrow> (geojson, [Warn_proj4_unavailable])
      | Some proj4 \<Rightarrow>
          if fromCRS = toCRS \<or> (fromCRS = ''EPSG:4326'' \<or> fromCRS = ''4326'') then (geojson, [])
          else case buildTransform proj4 fromCRS toCRS of
            (Return_input, evs) \<Rightarrow> (geojson, evs)
          | (Built T, evs) \<Rightarrow>
              (let (g', evs') = reprojectFeatures T geojson in (g', evs @ evs'))
          | (Thrown, evs) \<Rightarrow>
              (case proj4 fromCRS toCRS of
                 None \<Rightarrow>
                   (geojson,
                    evs @ [Warn_create_failed fromCRS toCRS, Log_retry_direct, Error_retry_failed])
               | Some T \<Rightarrow>
                   (let (g', evs') = reprojectFeatures T geojson
                    in (g', evs @ [Warn_create_failed fromCRS toCRS, Log_retry_direct] @ evs'))))"

section \<open>The attribute join: \<open>POST /api/merge\<close>\<close>

text \<open>
  \<open>String(v)\<close> for an attribute value or \<open>undefined\<close>. The conversion of a number to its
  decimal text belongs to the runtime and is a parameter.
\<close>

fun js_String :: "(jsnum \<Rightarrow> string) \<Rightarrow> jsval option \<Rightarrow> string" where
  "js_String numToString None = ''undefined''"
| "js_String numToString (Some JNull) = ''null''"
| "js_String numToString (Some (JBool b)) = (if b then ''true'' else ''false'')"
| "js_String numToString (Some (JNum n)) = numToString n"
| "js_String numToString (Some (JStr s)) = s"

text \<open>Truthiness of an attribute value or \<open>undefined\<close>.\<close>

fun truthy :: "jsval option \<Rightarrow> bool" where
  "truthy None = False"
| "truthy (Some JNull) = False"
| "truthy (Some (JBool b)) = b"
| "truthy (Some (JNum NaN)) = False"
| "truthy (Some (JNum (Fin r))) = (r \<noteq> 0)"
| "truthy (Some (JNum _)) = True"
| "truthy (Some (JStr s)) = (s \<noteq> [])"

text \<open>\<open>selectedDepth.trim().replace(/\s*cm\s*/gi, '').toLowerCase()\<close>.\<close>

definition normalizeDepth :: "string \<Rightarrow> string" where
  "normalizeDepth s = toLowerCase (strip_cm (trim s))"

text \<open>The predicate passed to \<open>find\<close> over the column names of the first record.\<close>

definition isDepthColumn :: "string \<Rightarrow> bool" where
  "isDepthColumn col \<longleftrightarrow>
     toLowerCase col = ''prof'' \<or> toLowerCase col = ''profundidade''
     \<or> js_includes (toLowerCase col) ''prof''"

text \<open>\<open>Object.keys(spreadsheetData[0] || {}).find(...)\<close>.\<close>

definition depthColumn :: "jsobject list \<Rightarrow> string option" where
  "depthColumn spreadsheetData =
     find isDepthColumn (map fst (case spreadsheetData of [] \<Rightarrow> [] | row # _ \<Rightarrow> row))"

text \<open>The predicate passed to \<open>spreadsheetData.filter\<close>.\<close>

definition rowHasDepth :: "(jsnum \<Rightarrow> string) \<Rightarrow> string \<Rightarrow> string \<Rightarrow> jsobject \<Rightarrow> bool" where
  "rowHasDepth numToString normalizedDepth col row =
     (let rowDepth = map_of row col
      in if rowDepth \<noteq> Some JNull \<and> rowDepth \<noteq> None \<and> rowDepth \<noteq> Some (JStr ''NULL'')
            \<and> rowDepth \<noteq> Some (JStr [])
         then (let rowDepthStr = trim (js_String numToString rowDepth)
               in if rowDepthStr \<noteq> []
                  then toLowerCase (strip_cm rowDepthStr) = normalizedDepth
                  else False)
         else False)"

text \<open>The table after the optional depth filter (\<open>filteredSpreadsheetData\<close>).\<close>

definition filterByDepth ::
  "(jsnum \<Rightarrow> string) \<Rightarrow> string option \<Rightarrow> jsobject list \<Rightarrow> jsobject list" where
  "filterByDepth numToString selectedDepth spreadsheetData =
     (case selectedDepth of
        None \<Rightarrow> spreadsheetData
      | Some d \<Rightarrow>
          if d = [] then spreadsheetData
          else case depthColumn spreadsheetData of
            None \<Rightarrow> spreadsheetData
          | Some col \<Rightarrow> filter (rowHasDepth numToString (normalizeDepth d) col) spreadsheetData)"

text \<open>The two lookup keys.\<close>

definition rowKey :: "(jsnum \<Rightarrow> string) \<Rightarrow> string \<Rightarrow> jsobject \<Rightarrow> string" where
  "rowKey numToString spreadsheetColumn row =
     trim (toLowerCase (js_String numToString (map_of row spreadsheetColumn)))"

definition featureKey :: "(jsnum \<Rightarrow> string) \<Rightarrow> string \<Rightarrow> geojson_feature \<Rightarrow> string" where
  "featureKey numToString shapefileColumn feature =
     (let v = map_of (properties feature) shapefileColumn
      in trim (toLowerCase (js_String numToString (if truthy v then v else Some (JStr [])))))"

text \<open>
  \<open>spreadsheetMap\<close>: a \<open>Map\<close> filled by \<open>set\<close> in table order. \<open>set\<close> on a key already
  present replaces its value in place, as \<open>AList.update\<close> does.
\<close>

definition buildSpreadsheetMap ::
  "(jsnum \<Rightarrow> string) \<Rightarrow> string \<Rightarrow> jsobject list \<Rightarrow> (string \<times> jsobject) list" where
  "buildSpreadsheetMap numToString spreadsheetColumn rows =
     fold (\<lambda>row m. AList.update (rowKey numToString spreadsheetColumn row) row m) rows []"

text \<open>
  Object spread \<open>{...a, ...b}\<close>: the properties of \<open>a\<close>, then each property of \<open>b\<close> assigned
  in order. (The special place of integer-like keys in the property order is not modelled.)
\<close>

definition spread :: "jsobject \<Rightarrow> jsobject \<Rightarrow> jsobject" where
  "spread a b = fold (\<lambda>(k, v) obj. AList.update k v obj) b a"

definition mergeFeature ::
  "(jsnum \<Rightarrow> string) \<Rightarrow> string \<Rightarrow> (string \<times> jsobject) list \<Rightarrow> geojson_feature \<Rightarrow> geojson_feature" where
  "mergeFeature numToString shapefileColumn spreadsheetMap feature =
     (case map_of spreadsheetMap (featureKey numToString shapefileColumn feature) of
        Some spreadsheetRow \<Rightarrow> feature\<lparr>properties := spread (properties feature) spreadsheetRow\<rparr>
      | None \<Rightarrow> feature)"

record merge_response =
  success :: bool
  geojson :: feature_collection
  matchedCount :: nat
  totalCount :: nat
  unmatchedCount :: nat

text \<open>The handler after its guard.\<close>

definition merge ::
  "(jsnum \<Rightarrow> string) \<Rightarrow> jsobject list \<Rightarrow> feature_collection \<Rightarrow> string \<Rightarrow> string \<Rightarrow> string option
     \<Rightarrow> merge_response" where
  "merge numToString spreadsheetData shapefileGeoJson spreadsheetColumn shapefileColumn selectedDepth =
     (let filteredSpreadsheetData = filterByDepth numToString selectedDepth spreadsheetData;
          spreadsheetMap = buildSpreadsheetMap numToString spreadsheetColumn filteredSpreadsheetData;
          mergedFeatures =
            map (mergeFeature numToString shapefileColumn spreadsheetMap) (features shapefileGeoJson);
          matched =
            length (filter (\<lambda>f. map_of spreadsheetMap (featureKey numToString shapefileColumn f) \<noteq> None)
                      mergedFeatures)
      in \<lparr>success = True,
          geojson = \<lparr>ctype = ''FeatureCollection'', features = mergedFeatures\<rparr>,
          matchedCount = matched,
          totalCount = length mergedFeatures,
          unmatchedCount = length mergedFeatures - matched\<rparr>)"

record merge_request =
  spreadsheetData :: "jsobject list option"
  shapefileGeoJson :: "feature_collection option"
  spreadsheetColumn :: "string option"
  shapefileColumn :: "string option"
  selectedDepth :: "string option"

text \<open>A response with status 400 or 500.\<close>

datatype http_error = Bad_request string | Internal_error js_exception

text \<open>
  The handler: status 400 when a required field is missing or falsy (an empty string; an
  array or an object is never falsy).
\<close>

definition api_merge :: "(jsnum \<Rightarrow> string) \<Rightarrow> merge_request \<Rightarrow> http_error + merge_response" where
  "api_merge numToString req =
     (case (spreadsheetData req, shapefileGeoJson req, spreadsheetColumn req, shapefileColumn req) of
        (Some tbl, Some fc, Some sc, Some fcol) \<Rightarrow>
          if sc = [] \<or> fcol = [] then Inl (Bad_request ''Dados incompletos para merge'')
          else Inr (merge numToString tbl fc sc fcol (selectedDepth req))
      | _ \<Rightarrow> Inl (Bad_request ''Dados incompletos para merge''))"

section \<open>The interpolation orchestrator: \<open>POST /api/interpolate\<close>\<close>

text \<open>Indexing \<open>c[i]\<close> into a coordinate value: \<open>undefined\<close> out of range and on a number.\<close>

fun js_index :: "coords \<Rightarrow> nat \<Rightarrow> coords option" where
  "js_index (CArr cs) i = (if i < length cs then Some (cs ! i) else None)"
| "js_index (CNum n) i = None"

text \<open>
  \<open>ToNumber\<close> of an argument of \<open>Math.min\<close>: \<open>undefined\<close> is \<open>NaN\<close>; an array is
  converted through its text, so the empty array is 0, a one-element array is its element,
  and a longer array (its text has a comma) is \<open>NaN\<close>.
\<close>

fun toNumber :: "coords \<Rightarrow> jsnum" where
  "toNumber (CNum n) = n"
| "toNumber (CArr []) = Fin 0"
| "toNumber (CArr [c]) = toNumber c"
| "toNumber (CArr (c # d # cs)) = NaN"

definition toNumber_opt :: "coords option \<Rightarrow> jsnum" where
  "toNumber_opt v = (case v of None \<Rightarrow> NaN | Some c \<Rightarrow> toNumber c)"

text \<open>\<open>Math.min(...xs)\<close> and \<open>Math.max(...xs)\<close>.\<close>

definition Math_min :: "jsnum list \<Rightarrow> jsnum" where
  "Math_min xs = fold (\<lambda>x m. js_min m x) xs PosInf"

definition Math_max :: "jsnum list \<Rightarrow> jsnum" where
  "Math_max xs = fold (\<lambda>x m. js_max m x) xs NegInf"

text \<open>The representative value \<open>c\<close> of a feature that has geometry and coordinates.\<close>

definition representative :: "geojson_geometry \<Rightarrow> coords \<Rightarrow> coords option" where
  "representative g cs = (if gtype g = ''Point'' then Some cs else js_index cs 0)"

definition hasCoordinates :: "geojson_feature \<Rightarrow> bool" where
  "hasCoordinates f = (case geometry f of None \<Rightarrow> False | Some g \<Rightarrow> truthy_coords (coordinates g))"

definition representatives :: "geojson_feature list \<Rightarrow> coords option list" where
  "representatives fs =
     map (\<lambda>f. case geometry f of
                None \<Rightarrow> None
              | Some g \<Rightarrow> (case coordinates g of None \<Rightarrow> None | Some cs \<Rightarrow> representative g cs))
         (filter hasCoordinates fs)"

type_synonym bounds = "(jsnum \<times> jsnum) \<times> (jsnum \<times> jsnum)"

text \<open>
  The block that computes \<open>results.bounds\<close>. Reading \<open>c[0]\<close> of an \<open>undefined\<close>
  representative throws.
\<close>

definition computeBounds :: "feature_collection \<Rightarrow> js_exception + bounds option" where
  "computeBounds geoJson =
     (if features geoJson = [] then Inr None
      else let cs = representatives (features geoJson)
           in if cs = [] then Inr None
              else case those cs of
                     None \<Rightarrow> Inl TypeError
                   | Some coords \<Rightarrow>
                       (let lons = map (\<lambda>c. toNumber_opt (js_index c 0)) coords;
                            lats = map (\<lambda>c. toNumber_opt (js_index c 1)) coords
                        in Inr (Some ((Math_min lats, Math_min lons),
                                      (Math_max lats, Math_max lons)))))"

subsection \<open>The worker and its output\<close>

text \<open>
  What one spawned worker does, as seen by the handler. A worker that was launched ends
  with one \<open>close\<close> event that carries its exit code (\<open>null\<close> after a signal). A worker
  that could not be launched fires \<open>error\<close> with a message and then \<open>close\<close> with the
  negative error number as its code. A worker may also never end.
\<close>

datatype worker_fate = Exited "int option" | Launch_failed string int | Never_ends

text \<open>The events that reach the two listeners registered by \<open>processParameter\<close>, in order.\<close>

datatype worker_event = Close "int option" | Spawn_error string

fun worker_events :: "worker_fate \<Rightarrow> worker_event list" where
  "worker_events (Exited code) = [Close code]"
| "worker_events (Launch_failed msg errno) = [Spawn_error msg, Close (Some errno)]"
| "worker_events Never_ends = []"

text \<open>
  Besides its fate: the text collected from its two pipes, whether the expected raster
  exists when \<open>close\<close> fires, whether copying it succeeds, and the date (\<open>yyyymmdd\<close>) at
  which the listener runs.
\<close>

record worker_run =
  fate :: worker_fate
  stdout :: string
  stderr :: string
  tiffExists :: bool
  copyOk :: bool
  dateStr :: string

definition is_numchar :: "char \<Rightarrow> bool" where
  "is_numchar c \<longleftrightarrow> is_digit c \<or> c = CHR ''.'' \<or> c = CHR ''-''"

text \<open>A literal at the start of a string: the rest after it.\<close>

fun strip_literal :: "string \<Rightarrow> string \<Rightarrow> string option" where
  "strip_literal [] s = Some s"
| "strip_literal (c # cs) [] = None"
| "strip_literal (c # cs) (d # ds) = (if c = d then strip_literal cs ds else None)"

text \<open>A group \<open>([\d\.-]+)\<close> at the start of a string: the group and the rest.\<close>

definition num_group :: "string \<Rightarrow> (string \<times> string) option" where
  "num_group s = (let g = takeWhile is_numchar s
                  in if g = [] then None else Some (g, dropWhile is_numchar s))"

text \<open>
  One match of \<open>/STATS: min=([\d\.-]+), max=([\d\.-]+), mean=([\d\.-]+)/\<close> at the start
  of a string. Each group is greedy and is followed by a character outside its class.
\<close>

definition stats_at :: "string \<Rightarrow> (string \<times> string \<times> string) option" where
  "stats_at s =
     (case strip_literal ''STATS: min='' s of None \<Rightarrow> None | Some r1 \<Rightarrow>
      case num_group r1 of None \<Rightarrow> None | Some (g1, r2) \<Rightarrow>
      case strip_literal '', max='' r2 of None \<Rightarrow> None | Some r3 \<Rightarrow>
      case num_group r3 of None \<Rightarrow> None | Some (g2, r4) \<Rightarrow>
      case strip_literal '', mean='' r4 of None \<Rightarrow> None | Some r5 \<Rightarrow>
      case num_group r5 of None \<Rightarrow> None | Some (g3, r6) \<Rightarrow> Some (g1, g2, g3))"

fun statsMatch :: "string \<Rightarrow> (string \<times> string \<times> string) option" where
  "statsMatch [] = None"
| "statsMatch (c # cs) = (case stats_at (c # cs) of Some g \<Rightarrow> Some g | None \<Rightarrow> statsMatch cs)"

text \<open>One match of \<open>/std[=:]?\s*([\d\.-]+)/i\<close> at the start of a string: the group.\<close>

definition std_at :: "string \<Rightarrow> string option" where
  "std_at s =
     (case s of
        c1 # c2 # c3 # r \<Rightarrow>
          if toLowerCase [c1, c2, c3] = ''std''
          then (let r1 = (case r of [] \<Rightarrow> [] | x # r' \<Rightarrow> if x = CHR ''='' \<or> x = CHR '':'' then r' else r);
                    g = takeWhile is_numchar (dropWhile is_space r1)
                in if g = [] then None else Some g)
          else None
      | _ \<Rightarrow> None)"

fun stdMatch :: "string \<Rightarrow> string option" where
  "stdMatch [] = None"
| "stdMatch (c # cs) = (case std_at (c # cs) of Some g \<Rightarrow> Some g | None \<Rightarrow> stdMatch cs)"

record statistics =
  min_stat :: jsnum
  max_stat :: jsnum
  mean_stat :: jsnum
  std_stat :: jsnum

text \<open>
  The statistics read from the worker's standard output. \<open>parseFloat\<close> belongs to the
  runtime and is a parameter.
\<close>

definition parseStatistics :: "(string \<Rightarrow> jsnum) \<Rightarrow> string \<Rightarrow> statistics" where
  "parseStatistics parseFloat out =
     (let (mn, mx, mean) =
            (case statsMatch out of
               None \<Rightarrow> (Fin 0, Fin 1, Fin 0.5)
             | Some (g1, g2, g3) \<Rightarrow> (parseFloat g1, parseFloat g2, parseFloat g3));
          std = (case stdMatch out of
                   None \<Rightarrow> js_div_pos (js_sub mx mn) 4
                 | Some g \<Rightarrow> parseFloat g)
      in \<lparr>min_stat = mn, max_stat = mx, mean_stat = mean, std_stat = std\<rparr>)"

text \<open>
  An entry of \<open>results.interpolations\<close>: \<open>{success: true, tiffFile, statistics}\<close> or
  \<open>{success: false, error}\<close>.
\<close>

datatype job_result = Job_success string statistics | Job_failure string

record results =
  results_success :: bool
  results_method :: string
  bounds :: "bounds option"
  tiffFiles :: "(string \<times> string) list"
  interpolations :: "(string \<times> job_result) list"

text \<open>What does not change during one request.\<close>

record job_context =
  parameters :: "string list"
  interp_method :: string
  propertyName :: string
  parseFloat :: "string \<Rightarrow> jsnum"
  workers :: "nat \<Rightarrow> worker_run"

text \<open>\<open>propertyName.toLowerCase().replace(/[^a-z0-9]/g, '_').substring(0, 30)\<close>.\<close>

definition cleanPropertyName :: "string \<Rightarrow> string" where
  "cleanPropertyName name =
     take 30 (map (\<lambda>c. if c \<in> set ''abcdefghijklmnopqrstuvwxyz0123456789'' then c else CHR ''_'')
                (toLowerCase name))"

definition originalTiff :: "job_context \<Rightarrow> string \<Rightarrow> string" where
  "originalTiff ctx param = param @ ''_'' @ interp_method ctx @ ''_interpolation.tif''"

definition descriptiveName :: "job_context \<Rightarrow> string \<Rightarrow> worker_run \<Rightarrow> string" where
  "descriptiveName ctx param run =
     param @ ''_'' @ cleanPropertyName (propertyName ctx) @ ''_'' @ interp_method ctx @ ''_''
       @ dateStr run @ ''.tif''"

text \<open>The message of the missing raster, in UTF-8 bytes.\<close>

definition tiff_missing :: string where
  "tiff_missing = ''Arquivo TIFF n'' @ [CHR 0xC3, CHR 0xA3] @ ''o foi gerado''"

text \<open>The assignments to \<open>results\<close> made by the \<open>close\<close> listener.\<close>

definition recordClose ::
  "job_context \<Rightarrow> string \<Rightarrow> worker_run \<Rightarrow> int option \<Rightarrow> results \<Rightarrow> results" where
  "recordClose ctx param run code res =
     (if code = Some 0
      then (if tiffExists run
            then (let file = (if copyOk run then ''/output/'' @ descriptiveName ctx param run
                              else ''/output/'' @ originalTiff ctx param);
                      res1 = res\<lparr>tiffFiles := AList.update param file (tiffFiles res)\<rparr>
                  in res1\<lparr>interpolations :=
                       AList.update param
                         (Job_success file (parseStatistics (parseFloat ctx) (stdout run)))
                         (interpolations res1)\<rparr>)
            else res\<lparr>interpolations :=
                   AList.update param (Job_failure tiff_missing) (interpolations res)\<rparr>)
      else res\<lparr>interpolations :=
             AList.update param
               (Job_failure (if stderr run \<noteq> [] then stderr run else ''Erro desconhecido''))
               (interpolations res)\<rparr>)"

text \<open>The assignment made by the \<open>error\<close> listener.\<close>

definition recordError :: "string \<Rightarrow> string \<Rightarrow> results \<Rightarrow> results" where
  "recordError param msg res =
     res\<lparr>interpolations :=
           AList.update param (Job_failure (''Erro ao executar Python: '' @ msg))
             (interpolations res)\<rparr>"

text \<open>
  The state of one request: the shared object \<open>results\<close>, the values \<open>res.json\<close> has been
  called with so far (only the first call can reach the client), the workers that were
  spawned and have events yet to fire, each with the index of its parameter, its number in
  the order of spawning and those events, and the number of workers spawned so far.
\<close>

record handler_state =
  results_now :: results
  responses :: "results list"
  waiting :: "(nat \<times> nat \<times> worker_event list) list"
  spawns :: nat

text \<open>
  \<open>processParameter\<close> returns at once: past the last parameter it calls \<open>res.json\<close>
  (removing the temporary file, whose failure is caught), otherwise it spawns a worker
  and registers the listeners.
\<close>

definition processParameter :: "job_context \<Rightarrow> nat \<Rightarrow> handler_state \<Rightarrow> handler_state" where
  "processParameter ctx paramIndex st =
     (if paramIndex \<ge> length (parameters ctx)
      then st\<lparr>responses := responses st @ [results_now st]\<rparr>
      else st\<lparr>waiting := waiting st
                   @ [(paramIndex, spawns st, worker_events (fate (workers ctx (spawns st))))],
              spawns := Suc (spawns st)\<rparr>)"

text \<open>
  The listeners of the worker spawned for \<open>paramIndex\<close>. Neither is guarded: each one that
  fires records its result and calls \<open>processParameter\<close> for the next index.
\<close>

fun listener ::
  "job_context \<Rightarrow> nat \<Rightarrow> worker_run \<Rightarrow> worker_event \<Rightarrow> handler_state \<Rightarrow> handler_state" where
  "listener ctx paramIndex run (Close code) st =
     processParameter ctx (paramIndex + 1)
       (st\<lparr>results_now :=
             recordClose ctx (parameters ctx ! paramIndex) run code (results_now st)\<rparr>)"
| "listener ctx paramIndex run (Spawn_error msg) st =
     processParameter ctx (paramIndex + 1)
       (st\<lparr>results_now := recordError (parameters ctx ! paramIndex) msg (results_now st)\<rparr>)"

text \<open>
  The next event of one waiting worker fires and reaches its listener. The worker keeps
  waiting when it has a further event.
\<close>

definition fire ::
  "job_context \<Rightarrow> nat \<times> nat \<times> worker_event list \<Rightarrow> handler_state \<Rightarrow> handler_state" where
  "fire ctx w st =
     (case w of
        (paramIndex, k, []) \<Rightarrow> st
      | (paramIndex, k, e # es) \<Rightarrow>
          listener ctx paramIndex (workers ctx k) e
            (st\<lparr>waiting := (if es = [] then remove1 w (waiting st)
                             else map (\<lambda>v. if v = w then (paramIndex, k, es) else v)
                                    (waiting st))\<rparr>))"

text \<open>The waiting workers that have an event to fire.\<close>

definition ready :: "handler_state \<Rightarrow> (nat \<times> nat \<times> worker_event list) list" where
  "ready st = filter (\<lambda>(paramIndex, k, evs). evs \<noteq> []) (waiting st)"

text \<open>
  The event loop: as long as a waiting worker has an event, one such event fires. Which
  worker's is up to the scheduler \<open>pick\<close>, a parameter; \<open>fuel\<close> bounds the number of events.
\<close>

fun eventLoop ::
  "job_context \<Rightarrow> (handler_state \<Rightarrow> nat) \<Rightarrow> nat \<Rightarrow> handler_state \<Rightarrow> handler_state" where
  "eventLoop ctx pick 0 st = st"
| "eventLoop ctx pick (Suc fuel) st =
     (let rs = ready st
      in if rs = [] then st
         else eventLoop ctx pick fuel (fire ctx (rs ! (pick st mod length rs)) st))"

record interpolate_request =
  geoJson :: "feature_collection option"
  req_parameters :: "string list option"
  req_method :: "string option"
  resolution :: "jsnum option"
  searchRadius :: "jsnum option"
  req_propertyName :: "string option"

text \<open>Truthiness of a number: neither zero nor \<open>NaN\<close>.\<close>

fun truthy_num :: "jsnum option \<Rightarrow> bool" where
  "truthy_num None = False"
| "truthy_num (Some NaN) = False"
| "truthy_num (Some (Fin r)) = (r \<noteq> 0)"
| "truthy_num (Some _) = True"

definition incomplete_interpolation :: string where
  "incomplete_interpolation =
     ''Dados incompletos para interpola'' @ [CHR 0xC3, CHR 0xA7, CHR 0xC3, CHR 0xA3] @ ''o''"

definition no_parameter :: string where
  "no_parameter =
     ''Selecione pelo menos um par'' @ [CHR 0xC3, CHR 0xA2] @ ''metro para interpolar''"

text \<open>
  The handler: the error response of a guard, or the state of the request after the event
  loop has run. The temporary file is written before the bounds are computed; \<open>writeOk\<close>
  says whether that (and creating the output directory) succeeds.
\<close>

definition api_interpolate ::
  "bool \<Rightarrow> (string \<Rightarrow> jsnum) \<Rightarrow> (nat \<Rightarrow> worker_run) \<Rightarrow> (handler_state \<Rightarrow> nat) \<Rightarrow> nat
     \<Rightarrow> interpolate_request \<Rightarrow> http_error + handler_state" where
  "api_interpolate writeOk pf ws pick fuel req =
     (case (geoJson req, req_parameters req, req_method req) of
        (Some gj, Some ps, Some m) \<Rightarrow>
          if m = [] \<or> \<not> truthy_num (resolution req) \<or> \<not> truthy_num (searchRadius req)
          then Inl (Bad_request incomplete_interpolation)
          else if ps = [] then Inl (Bad_request no_parameter)
          else if \<not> writeOk then Inl (Internal_error IOError)
          else (case computeBounds gj of
                  Inl e \<Rightarrow> Inl (Internal_error e)
                | Inr b \<Rightarrow>
                    (let ctx = \<lparr>parameters = ps, interp_method = m,
                                propertyName = (case req_propertyName req of
                                                  None \<Rightarrow> ''fazenda''
                                                | Some n \<Rightarrow> if n = [] then ''fazenda'' else n),
                                parseFloat = pf, workers = ws\<rparr>
                     in Inr (eventLoop ctx pick fuel
                               (processParameter ctx 0
                                  \<lparr>results_now =
                                      \<lparr>results_success = True, results_method = m, bounds = b,
                                       tiffFiles = [], interpolations = []\<rparr>,
                                   responses = [], waiting = [], spawns = 0\<rparr>))))
      | _ \<Rightarrow> Inl (Bad_request incomplete_interpolation))"

section \<open>Measures and declarative readings used to state the properties\<close>

text \<open>
  The nesting shape of a coordinate value: a position is an array that starts with two
  numbers (the test of \<open>transformCoordinates\<close>), anything else is a scalar or a nested array.
\<close>

datatype shape = Scalar | Position | Nested "shape list"

fun shape_of :: "coords \<Rightarrow> shape" where
  "shape_of (CArr (CNum x # CNum y # rest)) = Position"
| "shape_of (CArr cs) = Nested (map shape_of cs)"
| "shape_of (CNum n) = Scalar"

text \<open>The shape of a feature: whether it has a geometry, coordinates, and their shape.\<close>

definition feature_shape :: "geojson_feature \<Rightarrow> shape option option" where
  "feature_shape f = map_option (\<lambda>g. map_option shape_of (coordinates g)) (geometry f)"

text \<open>A valid geographic pair: longitude in [-180, 180] and latitude in [-90, 90].\<close>

definition lonlat_in_range :: "jsnum \<Rightarrow> jsnum \<Rightarrow> bool" where
  "lonlat_in_range lon lat \<longleftrightarrow>
     \<not> isNaN lon \<and> \<not> isNaN lat \<and> \<not> js_gt (js_abs lon) (Fin 180) \<and> \<not> js_gt (js_abs lat) (Fin 90)"

text \<open>A predicate holds of the first two numbers of every position of a coordinate value.\<close>

fun all_positions :: "(jsnum \<Rightarrow> jsnum \<Rightarrow> bool) \<Rightarrow> coords \<Rightarrow> bool" where
  "all_positions P (CArr (CNum x # CNum y # rest)) = P x y"
| "all_positions P (CArr cs) = list_all (all_positions P) cs"
| "all_positions P (CNum n) = True"

text \<open>The leaf test of \<open>transformCoordinates\<close>, as a predicate on the elements of the array.\<close>

fun leafy :: "coords list \<Rightarrow> bool" where
  "leafy (CNum x # CNum y # rest) = True"
| "leafy cs = False"

text \<open>
  A string starts with an occurrence of the zone pattern: the word \<open>zone\<close> in any
  letter case, separators, the digits \<open>ds\<close> and the hemisphere letter \<open>h\<close>.
\<close>

definition zone_occurrence :: "string \<Rightarrow> string \<Rightarrow> char \<Rightarrow> bool" where
  "zone_occurrence s ds h \<longleftrightarrow>
     (\<exists>w sep rest. s = w @ sep @ ds @ h # rest \<and> toLowerCase w = ''zone''
        \<and> (\<forall>c\<in>set sep. c = CHR ''_'' \<or> is_space c)
        \<and> ds \<noteq> [] \<and> (\<forall>c\<in>set ds. is_digit c) \<and> h \<in> set ''NSns'')"

text \<open>A string starts with an occurrence of the \<open>STATS\<close> marker.\<close>

definition numeric_text :: "string \<Rightarrow> bool" where
  "numeric_text g \<longleftrightarrow> g \<noteq> [] \<and> (\<forall>c\<in>set g. is_numchar c)"

definition stats_marker_at :: "string \<Rightarrow> bool" where
  "stats_marker_at s \<longleftrightarrow>
     (\<exists>g1 g2 g3 rest. s = ''STATS: min='' @ g1 @ '', max='' @ g2 @ '', mean='' @ g3 @ rest
        \<and> numeric_text g1 \<and> numeric_text g2 \<and> numeric_text g3)"

text \<open>The entry that the \<open>close\<close> listener leaves for its parameter.\<close>

definition closeOutcome ::
  "job_context \<Rightarrow> string \<Rightarrow> worker_run \<Rightarrow> int option \<Rightarrow> job_result" where
  "closeOutcome ctx param run code =
     (if code = Some 0
      then (if tiffExists run
            then Job_success
                   (if copyOk run then ''/output/'' @ descriptiveName ctx param run
                    else ''/output/'' @ originalTiff ctx param)
                   (parseStatistics (parseFloat ctx) (stdout run))
            else Job_failure tiff_missing)
      else Job_failure (if stderr run \<noteq> [] then stderr run else ''Erro desconhecido''))"

text \<open>The exit code of a worker that was launched and ended.\<close>

fun exit_code :: "worker_fate \<Rightarrow> int option" where
  "exit_code (Exited code) = code"
| "exit_code _ = None"

text \<open>The \<open>close\<close> listeners of the workers with the indices \<open>js\<close>, one after the other.\<close>

definition runJobs :: "job_context \<Rightarrow> nat list \<Rightarrow> results \<Rightarrow> results" where
  "runJobs ctx js res =
     fold (\<lambda>j r. recordClose ctx (parameters ctx ! j) (workers ctx j)
                    (exit_code (fate (workers ctx j))) r) js res"

section \<open>Concrete inputs\<close>

text \<open>
  Three transforms used as concrete inputs: one that yields \<open>NaN\<close>, one that throws, one
  that is constant.
\<close>

definition forward_NaN :: transform where
  "forward_NaN x y = Some (NaN, NaN)"

definition forward_throws :: transform where
  "forward_throws x y = None"

definition forward_const :: "jsnum \<Rightarrow> jsnum \<Rightarrow> transform" where
  "forward_const lon lat x y = Some (lon, lat)"

text \<open>A number printer that knows the few numbers of the concrete inputs below.\<close>

definition small_numToString :: "jsnum \<Rightarrow> string" where
  "small_numToString n =
     (if n = Fin 0 then ''0'' else if n = Fin 1 then ''1'' else if n = Fin 2 then ''2''
      else if n = Fin 20 then ''20'' else if n = Fin 1.2 then ''1.2'' else ''?'')"

text \<open>The table, the point feature and the request of the join example.\<close>

definition sample_table :: "jsobject list" where
  "sample_table = [[(''Farm'', JStr ''A''), (''Prof'', JStr ''0-20''), (''Zn'', JNum (Fin 1.2))]]"

definition sample_features :: feature_collection where
  "sample_features = \<lparr>ctype = ''FeatureCollection'',
     features = [\<lparr>geometry = Some \<lparr>gtype = ''Point'', coordinates = Some (CArr [CNum (Fin (-57)), CNum (Fin (-22))])\<rparr>,
                  properties = [(''Farm'', JStr ''A'')]\<rparr>]\<rparr>"

definition sample_request :: merge_request where
  "sample_request = \<lparr>spreadsheetData = Some sample_table, shapefileGeoJson = Some sample_features,
     spreadsheetColumn = Some ''Farm'', shapefileColumn = Some ''Farm'', selectedDepth = Some ''0-20 cm''\<rparr>"

text \<open>
  A table of one record and a collection of one point feature, both with the number \<open>n\<close>
  in the column \<open>id\<close>.
\<close>

definition id_table :: "real \<Rightarrow> jsobject list" where
  "id_table n = [[(''id'', JNum (Fin n)), (''Zn'', JNum (Fin 1.2))]]"

definition id_features :: "real \<Rightarrow> feature_collection" where
  "id_features n = \<lparr>ctype = ''FeatureCollection'',
     features = [\<lparr>geometry = Some \<lparr>gtype = ''Point'', coordinates = Some (CArr [CNum (Fin (-57)), CNum (Fin (-22))])\<rparr>,
                  properties = [(''id'', JNum (Fin n))]\<rparr>]\<rparr>"

text \<open>A table with two records under the same key \<open>a\<close>.\<close>

definition duplicate_table :: "jsobject list" where
  "duplicate_table =
     [[(''Farm'', JStr ''A''), (''Zn'', JNum (Fin 1))],
      [(''Farm'', JStr '' a''), (''Zn'', JNum (Fin 2)), (''Cu'', JNum (Fin 20))]]"

text \<open>A table whose depth cell holds the text \<open>NULL\<close>.\<close>

definition null_depth_table :: "jsobject list" where
  "null_depth_table = [[(''Farm'', JStr ''A''), (''Prof'', JStr ''NULL'')]]"

text \<open>
  Workers that are all launched: the first exits with code 1, every other one succeeds
  and prints no \<open>STATS\<close> line but a standard deviation.
\<close>

definition success_run :: worker_run where
  "success_run = \<lparr>fate = Exited (Some 0), stdout = ''done std: 0.3'', stderr = [],
     tiffExists = True, copyOk = True, dateStr = ''20260101''\<rparr>"

definition sample_workers :: "nat \<Rightarrow> worker_run" where
  "sample_workers k =
     (if k = 0
      then \<lparr>fate = Exited (Some 1), stdout = [], stderr = ''boom'', tiffExists = False,
             copyOk = False, dateStr = ''20260101''\<rparr>
      else success_run)"

text \<open>Workers of which the first cannot be launched and every other one succeeds.\<close>

definition launch_failure_workers :: "nat \<Rightarrow> worker_run" where
  "launch_failure_workers k =
     (if k = 0
      then \<lparr>fate = Launch_failed ''spawn python3 EAGAIN'' (- 11), stdout = [], stderr = [],
             tiffExists = False, copyOk = False, dateStr = ''20260101''\<rparr>
      else success_run)"

definition sample_parseFloat :: "string \<Rightarrow> jsnum" where
  "sample_parseFloat s = (if s = ''0.3'' then Fin 0.3 else NaN)"

definition sample_context :: job_context where
  "sample_context = \<lparr>parameters = [''Zn'', ''Cu''], interp_method = ''idw'',
     propertyName = ''fazenda'', parseFloat = sample_parseFloat,
     workers = sample_workers\<rparr>"

definition launch_failure_context :: job_context where
  "launch_failure_context = \<lparr>parameters = [''Zn'', ''Cu''], interp_method = ''idw'',
     propertyName = ''fazenda'', parseFloat = sample_parseFloat,
     workers = launch_failure_workers\<rparr>"

definition empty_results :: results where
  "empty_results = \<lparr>results_success = True, results_method = ''idw'', bounds = None,
     tiffFiles = [], interpolations = []\<rparr>"

definition initial_state :: handler_state where
  "initial_state = \<lparr>results_now = empty_results, responses = [], waiting = [], spawns = 0\<rparr>"

text \<open>
  Two values of \<open>results\<close> during the request whose first launch fails: after the \<open>error\<close>
  listener of \<open>Zn\<close> and the \<open>close\<close> listener of \<open>Cu\<close>, and at the end.
\<close>

definition launch_error_results :: results where
  "launch_error_results = \<lparr>results_success = True, results_method = ''idw'', bounds = None,
     tiffFiles = [(''Cu'', ''/output/Cu_fazenda_idw_20260101.tif'')],
     interpolations =
       [(''Zn'', Job_failure ''Erro ao executar Python: spawn python3 EAGAIN''),
        (''Cu'', Job_success ''/output/Cu_fazenda_idw_20260101.tif''
                   \<lparr>min_stat = Fin 0, max_stat = Fin 1, mean_stat = Fin 0.5,
                    std_stat = Fin 0.3\<rparr>)]\<rparr>"

definition launch_failure_results :: results where
  "launch_failure_results = \<lparr>results_success = True, results_method = ''idw'', bounds = None,
     tiffFiles = [(''Cu'', ''/output/Cu_fazenda_idw_20260101.tif'')],
     interpolations =
       [(''Zn'', Job_failure ''Erro desconhecido''),
        (''Cu'', Job_success ''/output/Cu_fazenda_idw_20260101.tif''
                   \<lparr>min_stat = Fin 0, max_stat = Fin 1, mean_stat = Fin 0.5,
                    std_stat = Fin 0.3\<rparr>)]\<rparr>"

text \<open>A collection with one polygon: a single ring of four positions.\<close>

definition polygon_collection :: feature_collection where
  "polygon_collection = \<lparr>ctype = ''FeatureCollection'',
     features = [\<lparr>geometry = Some \<lparr>gtype = ''Polygon'',
        coordinates = Some (CArr [CArr [CArr [CNum (Fin 0), CNum (Fin 0)],
                                         CArr [CNum (Fin 1), CNum (Fin 0)],
                                         CArr [CNum (Fin 1), CNum (Fin 1)],
                                         CArr [CNum (Fin 0), CNum (Fin 0)]]])\<rparr>,
        properties = []\<rparr>]\<rparr>"

section \<open>Properties of the CRS resolver\<close>

lemma startsWith_iff: "startsWith s sub \<longleftrightarrow> (\<exists>r. s = sub @ r)"
  by (induction sub arbitrary: s) (auto split: list.splits)

lemma js_includes_iff: "js_includes s sub \<longleftrightarrow> (\<exists>p r. s = p @ sub @ r)"
proof (induction s)
  case Nil
  then show ?case by auto
next
  case (Cons c cs)
  show ?case
  proof
    assume "js_includes (c # cs) sub"
    then consider "startsWith (c # cs) sub" | "js_includes cs sub" by auto
    then show "\<exists>p r. c # cs = p @ sub @ r"
    proof cases
      case 1
      then obtain r where "c # cs = sub @ r" using startsWith_iff by blast
      then have "c # cs = [] @ sub @ r" by simp
      then show ?thesis by blast
    next
      case 2
      then obtain p r where "cs = p @ sub @ r" using Cons.IH by blast
      then have "c # cs = (c # p) @ sub @ r" by simp
      then show ?thesis by blast
    qed
  next
    assume "\<exists>p r. c # cs = p @ sub @ r"
    then obtain p r where e: "c # cs = p @ sub @ r" by blast
    show "js_includes (c # cs) sub"
    proof (cases p)
      case Nil
      with e have "startsWith (c # cs) sub" using startsWith_iff by auto
      then show ?thesis by simp
    next
      case (Cons d p')
      with e have "cs = p' @ sub @ r" by simp
      then have "js_includes cs sub" using Cons.IH by blast
      then show ?thesis by simp
    qed
  qed
qed

lemma zone_at_Zone_21S: "zone_at (''Zone_21S'' @ r) = Some (''21'', CHR ''S'')"
  by (simp add: zone_at_def toLowerCase_def lower_char_def is_digit_def is_space_def)

lemma zone_at_Zone_sp_21S: "zone_at (''Zone 21S'' @ r) = Some (''21'', CHR ''S'')"
  by (simp add: zone_at_def toLowerCase_def lower_char_def is_digit_def is_space_def)

lemma zoneMatch_None_append: "zoneMatch (p @ s) = None \<Longrightarrow> zone_at s = None"
proof (induction p)
  case Nil
  then show ?case by (cases s) (auto simp: zone_at_def split: option.splits)
next
  case (Cons c p)
  then show ?case by (auto split: option.splits)
qed

lemma zoneMatch_None_no_21S:
  assumes "zoneMatch prj = None"
  shows "\<not> js_includes prj ''Zone_21S'' \<and> \<not> js_includes prj ''Zone 21S''"
proof -
  have "zone_at s = None" if "prj = p @ s" for p s
    using assms that zoneMatch_None_append by blast
  then show ?thesis
    unfolding js_includes_iff
    using zone_at_Zone_21S zone_at_Zone_sp_21S by (metis option.distinct(1))
qed

lemma upper_char_S: "upper_char h = CHR ''S'' \<longleftrightarrow> h = CHR ''S'' \<or> h = CHR ''s''"
  by (simp add: upper_char_def)

text \<open>
  C3. For a description that contains \<open>UTM\<close> or \<open>Transverse_Mercator\<close>: when the zone
  pattern matches, with digits \<open>ds\<close> and hemisphere letter \<open>h\<close>, the result is
  \<open>EPSG:\<close> followed by 32700 plus the zone for the letter \<open>S\<close> (in either case) and
  by 32600 plus the zone otherwise; zone 21 with \<open>S\<close> gives \<open>EPSG:32721\<close>; when the
  pattern does not match, the result is the sentinel \<open>UTM\<close>. What the match is, is
  stated by \<open>zone_at_iff_occurrence\<close>, \<open>zoneMatch_Some_leftmost\<close> and
  \<open>zoneMatch_None_iff\<close> below.
\<close>

theorem detectCRS_utm_zone:
  "(js_includes prj ''UTM'' \<or> js_includes prj ''Transverse_Mercator'') \<longrightarrow>
     (zoneMatch prj = Some (ds, h) \<longrightarrow>
        detectCRS (Some prj) =
          ''EPSG:'' @ string_of_nat ((if h = CHR ''S'' \<or> h = CHR ''s'' then 32700 else 32600) + parseInt ds))
     \<and> (zoneMatch prj = Some (''21'', CHR ''S'') \<longrightarrow> detectCRS (Some prj) = ''EPSG:32721'')
     \<and> (zoneMatch prj = None \<longrightarrow> detectCRS (Some prj) = ''UTM'')"
proof (intro impI conjI)
  assume m: "js_includes prj ''UTM'' \<or> js_includes prj ''Transverse_Mercator''"
  then have ne: "prj \<noteq> []" by auto
  {
    assume "zoneMatch prj = Some (ds, h)"
    with m ne show "detectCRS (Some prj) =
          ''EPSG:'' @ string_of_nat ((if h = CHR ''S'' \<or> h = CHR ''s'' then 32700 else 32600) + parseInt ds)"
      by (simp add: detectCRS_def Let_def upper_char_S)
  }
  {
    assume "zoneMatch prj = Some (''21'', CHR ''S'')"
    moreover have "string_of_nat 32721 = ''32721''" by (simp add: string_of_nat.simps)
    moreover have "parseInt ''21'' = 21" by (simp add: parseInt_def digit_value_def)
    ultimately show "detectCRS (Some prj) = ''EPSG:32721''"
      using m ne by (simp add: detectCRS_def Let_def upper_char_def)
  }
  {
    assume z: "zoneMatch prj = None"
    with m ne zoneMatch_None_no_21S[OF z] show "detectCRS (Some prj) = ''UTM''"
      by (simp add: detectCRS_def)
  }
qed

lemma digit_not_sep: "is_digit c \<Longrightarrow> \<not> (c = CHR ''_'' \<or> is_space c)"
  by (auto simp: is_digit_def is_space_def)

lemma hemi_not_digit: "h \<in> set ''NSns'' \<Longrightarrow> \<not> is_digit h"
  by (auto simp: is_digit_def)

lemma toLowerCase_zone_length: "toLowerCase w = ''zone'' \<Longrightarrow> length w = 4"
proof -
  assume "toLowerCase w = ''zone''"
  then have "length (map lower_char w) = length ''zone''" by (simp add: toLowerCase_def)
  then show ?thesis by simp
qed

lemma zone_at_occurrence:
  assumes "zone_occurrence s ds h"
  shows "zone_at s = Some (ds, h)"
proof -
  from assms obtain w sep rest where s: "s = w @ sep @ ds @ h # rest"
    and w: "toLowerCase w = ''zone''"
    and sep: "\<forall>c\<in>set sep. c = CHR ''_'' \<or> is_space c"
    and ds: "ds \<noteq> []" "\<forall>c\<in>set ds. is_digit c" and h: "h \<in> set ''NSns''"
    unfolding zone_occurrence_def by (elim exE conjE) (rule that)
  from w have "length w = 4" by (rule toLowerCase_zone_length)
  then obtain c1 c2 c3 c4 where w4: "w = [c1, c2, c3, c4]"
    by (auto simp: length_Suc_conv numeral_eq_Suc)
  from ds obtain d ds' where dd: "ds = d # ds'" by (cases ds) auto
  with ds have "\<not> (d = CHR ''_'' \<or> is_space d)" using digit_not_sep by simp
  with sep dd have r1: "dropWhile (\<lambda>c. c = CHR ''_'' \<or> is_space c) (sep @ ds @ h # rest) = ds @ h # rest"
    by (simp add: dropWhile_append3)
  from h have nh: "\<not> is_digit h" by (rule hemi_not_digit)
  with ds have tw: "takeWhile is_digit (ds @ h # rest) = ds"
    by (simp add: takeWhile_tail)
  from nh ds have dw: "dropWhile is_digit (ds @ h # rest) = h # rest"
    by (simp add: dropWhile_append)
  from w w4 ds h show ?thesis
    unfolding zone_at_def s w4 by (simp add: r1 tw dw Let_def del: set_simps)
qed

lemma occurrence_zone_at:
  assumes "zone_at s = Some (ds, h)"
  shows "zone_occurrence s ds h"
proof -
  from assms obtain c1 c2 c3 c4 r where s: "s = c1 # c2 # c3 # c4 # r"
    and w: "toLowerCase [c1, c2, c3, c4] = ''zone''"
    by (auto simp: zone_at_def split: list.splits if_splits)
  define sepP where "sepP = (\<lambda>c. c = CHR ''_'' \<or> is_space c)"
  define r1 where "r1 = dropWhile sepP r"
  from assms s w obtain rest where ds: "ds = takeWhile is_digit r1"
    and hr: "dropWhile is_digit r1 = h # rest" and ne: "ds \<noteq> []" and h: "h \<in> set ''NSns''"
    by (auto simp: zone_at_def Let_def r1_def sepP_def split: list.splits if_splits)
  have "r = takeWhile sepP r @ r1" by (simp add: r1_def)
  moreover have "r1 = ds @ h # rest" using ds hr by (metis takeWhile_dropWhile_id)
  ultimately have "s = [c1, c2, c3, c4] @ takeWhile sepP r @ ds @ h # rest"
    using s by simp
  moreover have "\<forall>c\<in>set (takeWhile sepP r). c = CHR ''_'' \<or> is_space c"
    using set_takeWhileD sepP_def by fastforce
  moreover have "\<forall>c\<in>set ds. is_digit c"
    unfolding ds using set_takeWhileD by fastforce
  ultimately show ?thesis
    unfolding zone_occurrence_def using w ne h by blast
qed

lemma zone_at_iff_occurrence: "zone_at s = Some (ds, h) \<longleftrightarrow> zone_occurrence s ds h"
  using zone_at_occurrence occurrence_zone_at by blast

lemma zoneMatch_Some_leftmost:
  "zoneMatch s = Some g \<longleftrightarrow>
     (\<exists>pre suf. s = pre @ suf \<and> zone_at suf = Some g
        \<and> (\<forall>pre' suf'. s = pre' @ suf' \<and> length pre' < length pre \<longrightarrow> zone_at suf' = None))"
proof (induction s)
  case Nil
  then show ?case by (auto simp: zone_at_def)
next
  case (Cons c cs)
  show ?case
  proof (cases "zone_at (c # cs)")
    case (Some g')
    have "(\<exists>pre suf. c # cs = pre @ suf \<and> zone_at suf = Some g
        \<and> (\<forall>pre' suf'. c # cs = pre' @ suf' \<and> length pre' < length pre \<longrightarrow> zone_at suf' = None))
        \<longleftrightarrow> g' = g"
    proof
      assume "\<exists>pre suf. c # cs = pre @ suf \<and> zone_at suf = Some g
        \<and> (\<forall>pre' suf'. c # cs = pre' @ suf' \<and> length pre' < length pre \<longrightarrow> zone_at suf' = None)"
      then obtain pre suf where e: "c # cs = pre @ suf" "zone_at suf = Some g"
        and l: "\<forall>pre' suf'. c # cs = pre' @ suf' \<and> length pre' < length pre \<longrightarrow> zone_at suf' = None"
        by blast
      have "pre = []"
      proof (rule ccontr)
        assume "pre \<noteq> []"
        then have "length [] < length pre" by simp
        with l have "zone_at (c # cs) = None" by (metis append_Nil)
        with Some show False by simp
      qed
      with e Some show "g' = g" by simp
    next
      assume "g' = g"
      with Some have "c # cs = [] @ (c # cs) \<and> zone_at (c # cs) = Some g
        \<and> (\<forall>pre' suf'. c # cs = pre' @ suf' \<and> length pre' < length ([]::string) \<longrightarrow> zone_at suf' = None)"
        by simp
      then show "\<exists>pre suf. c # cs = pre @ suf \<and> zone_at suf = Some g
        \<and> (\<forall>pre' suf'. c # cs = pre' @ suf' \<and> length pre' < length pre \<longrightarrow> zone_at suf' = None)"
        by blast
    qed
    with Some show ?thesis by simp
  next
    case None
    have "(\<exists>pre suf. c # cs = pre @ suf \<and> zone_at suf = Some g
        \<and> (\<forall>pre' suf'. c # cs = pre' @ suf' \<and> length pre' < length pre \<longrightarrow> zone_at suf' = None))
      \<longleftrightarrow> (\<exists>pre suf. cs = pre @ suf \<and> zone_at suf = Some g
        \<and> (\<forall>pre' suf'. cs = pre' @ suf' \<and> length pre' < length pre \<longrightarrow> zone_at suf' = None))"
      (is "?L \<longleftrightarrow> ?R")
    proof
      assume ?L
      then obtain pre suf where e: "c # cs = pre @ suf" "zone_at suf = Some g"
        and l: "\<forall>pre' suf'. c # cs = pre' @ suf' \<and> length pre' < length pre \<longrightarrow> zone_at suf' = None"
        by blast
      from e None obtain p where p: "pre = c # p" "cs = p @ suf"
        by (cases pre) auto
      have "zone_at suf' = None" if "cs = pre' @ suf'" "length pre' < length p" for pre' suf'
      proof -
        from that have "c # cs = (c # pre') @ suf'" "length (c # pre') < length pre"
          using p by simp_all
        with l show ?thesis by blast
      qed
      with p e show ?R by blast
    next
      assume ?R
      then obtain p suf where e: "cs = p @ suf" "zone_at suf = Some g"
        and l: "\<forall>pre' suf'. cs = pre' @ suf' \<and> length pre' < length p \<longrightarrow> zone_at suf' = None"
        by blast
      have "zone_at suf' = None" if "c # cs = pre' @ suf'" "length pre' < length (c # p)" for pre' suf'
      proof (cases pre')
        case Nil
        with that None show ?thesis by simp
      next
        case (Cons d q)
        with that have "cs = q @ suf'" "length q < length p" by simp_all
        with l show ?thesis by blast
      qed
      moreover from e have "c # cs = (c # p) @ suf" by simp
      ultimately show ?L using e(2) by blast
    qed
    with None Cons.IH show ?thesis by simp
  qed
qed

lemma zoneMatch_None_iff: "zoneMatch s = None \<longleftrightarrow> (\<forall>pre suf. s = pre @ suf \<longrightarrow> zone_at suf = None)"
proof
  assume "zoneMatch s = None"
  then show "\<forall>pre suf. s = pre @ suf \<longrightarrow> zone_at suf = None"
    using zoneMatch_None_append by blast
next
  assume a: "\<forall>pre suf. s = pre @ suf \<longrightarrow> zone_at suf = None"
  show "zoneMatch s = None"
  proof (rule ccontr)
    assume "zoneMatch s \<noteq> None"
    then obtain g where "zoneMatch s = Some g" by auto
    then obtain pre suf where "s = pre @ suf" "zone_at suf = Some g"
      using zoneMatch_Some_leftmost by blast
    with a show False by simp
  qed
qed

theorem detectCRS_utm_zone_witness:
  "detectCRS (Some ''UTM_Zone_21S'') = ''EPSG:32721''
   \<and> detectCRS (Some ''UTM zone 22n'') = ''EPSG:32622''
   \<and> detectCRS (Some ''Transverse_Mercator'') = ''UTM''"
  using detectCRS_utm_zone[of "''UTM_Zone_21S''" "''21''" "CHR ''S''"]
    detectCRS_utm_zone[of "''UTM zone 22n''" "''22''" "CHR ''n''"]
    detectCRS_utm_zone[of "''Transverse_Mercator''"]
  by (simp add: zone_at_def toLowerCase_def lower_char_def is_digit_def is_space_def
      parseInt_def digit_value_def string_of_nat.simps)

section \<open>Properties of reprojection\<close>

lemma buildTransform_UTM:
  "buildTransform proj4 ''UTM'' toCRS = (Return_input, [Warn_projected_unidentified])"
  by (simp add: buildTransform_def)

lemma buildTransform_PROJECTED:
  "buildTransform proj4 ''PROJECTED'' toCRS = (Return_input, [Warn_projected_unidentified])"
  by (simp add: buildTransform_def)

text \<open>
  C10. Called with the source identifier \<open>UTM\<close> or \<open>PROJECTED\<close>, \<open>reprojectGeoJSON\<close>
  returns the collection it was given, whatever the library, the collection and the target:
  no coordinate is transformed.
\<close>

theorem reprojectGeoJSON_sentinel_unchanged:
  "fst (reprojectGeoJSON proj4_global collection ''UTM'' toCRS) = collection
   \<and> fst (reprojectGeoJSON proj4_global collection ''PROJECTED'' toCRS) = collection"
  by (simp add: reprojectGeoJSON_def buildTransform_UTM buildTransform_PROJECTED
      split: option.split)

lemma leafyE: "leafy cs \<Longrightarrow> \<exists>x y rest. cs = CNum x # CNum y # rest"
  by (induction cs rule: leafy.induct) simp_all

lemma transformCoordinates_nonleaf:
  "\<not> leafy cs \<Longrightarrow> transformCoordinates T (CArr cs) =
     (CArr (map (fst \<circ> transformCoordinates T) cs), concat (map (snd \<circ> transformCoordinates T) cs))"
  by (induction cs rule: leafy.induct) (simp_all add: Let_def)

lemma shape_of_nonleaf: "\<not> leafy cs \<Longrightarrow> shape_of (CArr cs) = Nested (map shape_of cs)"
  by (induction cs rule: leafy.induct) simp_all

lemma all_positions_nonleaf:
  "\<not> leafy cs \<Longrightarrow> all_positions P (CArr cs) = list_all (all_positions P) cs"
  by (induction cs rule: leafy.induct) simp_all

lemma transformLeaf_CArr: "\<exists>a b r. fst (transformLeaf T x y rest) = CArr (CNum a # CNum b # r)"
  by (simp add: transformLeaf_def split: option.split prod.split)

lemma transformCoordinates_CNum_iff:
  "fst (transformCoordinates T c) = CNum n \<longleftrightarrow> c = CNum n"
proof (cases c)
  case (CNum m)
  then show ?thesis by simp
next
  case (CArr cs)
  show ?thesis
  proof (cases "leafy cs")
    case True
    then obtain x y rest where "cs = CNum x # CNum y # rest" using leafyE by blast
    then show ?thesis using CArr transformLeaf_CArr[of T x y rest] by auto
  next
    case False
    then show ?thesis using CArr by (simp add: transformCoordinates_nonleaf)
  qed
qed

lemma leafy_Cons2: "leafy (a # b # r) \<longleftrightarrow> (\<exists>x y. a = CNum x \<and> b = CNum y)"
  by (cases a; cases b; simp)

lemma leafy_short [simp]: "\<not> leafy [a]"
  by (cases a) simp_all

lemma leafy_map_transform: "leafy (map (fst \<circ> transformCoordinates T) cs) = leafy cs"
proof (cases cs)
  case Nil
  then show ?thesis by simp
next
  case (Cons a as)
  then show ?thesis
    by (cases as) (simp_all add: leafy_Cons2 transformCoordinates_CNum_iff)
qed

lemma shape_leaf: "shape_of (fst (transformLeaf T x y rest)) = Position"
  by (simp add: transformLeaf_def split: option.split prod.split)

lemma shape_transformCoordinates: "shape_of (fst (transformCoordinates T c)) = shape_of c"
proof (induction c)
  case (CNum n)
  then show ?case by simp
next
  case (CArr cs)
  show ?case
  proof (cases "leafy cs")
    case True
    then obtain x y rest where "cs = CNum x # CNum y # rest" using leafyE by blast
    then show ?thesis by (simp add: shape_leaf)
  next
    case False
    then have "\<not> leafy (map (fst \<circ> transformCoordinates T) cs)"
      by (simp add: leafy_map_transform)
    with False CArr show ?thesis
      by (simp add: transformCoordinates_nonleaf shape_of_nonleaf)
  qed
qed

lemma shape_transformCoordinates_pair:
  "transformCoordinates T c = (c', evs) \<Longrightarrow> shape_of c' = shape_of c"
  using shape_transformCoordinates[of T c] by simp

lemma feature_shape_reprojectFeature:
  "feature_shape (fst (reprojectFeature T f)) = feature_shape f"
  by (auto simp: feature_shape_def reprojectFeature_def
      split: option.split prod.split dest: shape_transformCoordinates_pair)

lemma features_reprojectFeatures:
  "map feature_shape (features (fst (reprojectFeatures T g))) = map feature_shape (features g)"
  by (simp add: reprojectFeatures_def Let_def feature_shape_reprojectFeature comp_def)

lemma features_reprojectFeatures_pair:
  "reprojectFeatures T g = (g', evs) \<Longrightarrow> map feature_shape (features g') = map feature_shape (features g)"
  using features_reprojectFeatures[of T g] by simp

lemma features_reprojectGeoJSON:
  "map feature_shape (features (fst (reprojectGeoJSON p g from to))) = map feature_shape (features g)"
  by (auto simp: reprojectGeoJSON_def
      split: option.split prod.split attempt.split dest: features_reprojectFeatures_pair)

lemma silent_leaf:
  assumes "snd (transformLeaf T x y rest) = []"
  shows "\<exists>lon lat. fst (transformLeaf T x y rest) = CArr [CNum lon, CNum lat] \<and> lonlat_in_range lon lat"
proof (cases "isNaN x \<or> isNaN y")
  case True
  with assms show ?thesis by (simp add: transformLeaf_def)
next
  case False
  show ?thesis
  proof (cases "T x y")
    case None
    with False assms show ?thesis by (simp add: transformLeaf_def)
  next
    case (Some p)
    obtain lon lat where p: "p = (lon, lat)" by (cases p)
    from assms False Some p have "lonlat_in_range lon lat"
      by (simp add: transformLeaf_def lonlat_in_range_def split: if_splits)
    moreover from this False Some p have "fst (transformLeaf T x y rest) = CArr [CNum lon, CNum lat]"
      by (simp add: transformLeaf_def lonlat_in_range_def)
    ultimately show ?thesis by blast
  qed
qed

lemma silent_valid:
  "snd (transformCoordinates T c) = [] \<Longrightarrow> all_positions lonlat_in_range (fst (transformCoordinates T c))"
proof (induction c)
  case (CNum n)
  then show ?case by simp
next
  case (CArr cs)
  show ?case
  proof (cases "leafy cs")
    case True
    then obtain x y rest where cs: "cs = CNum x # CNum y # rest" using leafyE by blast
    with CArr.prems silent_leaf[of T x y rest] show ?thesis by auto
  next
    case False
    then have nl: "\<not> leafy (map (fst \<circ> transformCoordinates T) cs)"
      by (simp add: leafy_map_transform)
    from False CArr.prems have "\<forall>c\<in>set cs. snd (transformCoordinates T c) = []"
      by (simp add: transformCoordinates_nonleaf)
    with CArr.IH have "\<forall>c\<in>set cs. all_positions lonlat_in_range (fst (transformCoordinates T c))"
      by blast
    with False nl show ?thesis
      by (simp add: transformCoordinates_nonleaf all_positions_nonleaf list_all_iff)
  qed
qed

lemma transformLeaf_NaN_input:
  "isNaN x \<or> isNaN y \<Longrightarrow> fst (transformLeaf T x y rest) = CArr (CNum x # CNum y # rest)"
  by (simp add: transformLeaf_def)

lemma transformLeaf_NaN_output:
  "T x y = Some (lon, lat) \<Longrightarrow> isNaN lon \<or> isNaN lat
   \<Longrightarrow> fst (transformLeaf T x y rest) = CArr (CNum x # CNum y # rest)"
  by (simp add: transformLeaf_def)

text \<open>
  C9. A position whose input has a \<open>NaN\<close> component, or whose transformed pair has one, is
  returned as it was given. Reprojection therefore preserves the nesting shape (and with it
  the number of positions) of every coordinate value, and the shape of every feature of the
  collection, in order. (A transformed position has two components: a third component of
  the input position is not carried over.)
\<close>

theorem transformCoordinates_NaN_retained:
  "(isNaN x \<or> isNaN y \<longrightarrow>
      fst (transformCoordinates T (CArr (CNum x # CNum y # rest))) = CArr (CNum x # CNum y # rest))
   \<and> (T x y = Some (lon, lat) \<and> (isNaN lon \<or> isNaN lat) \<longrightarrow>
      fst (transformCoordinates T (CArr (CNum x # CNum y # rest))) = CArr (CNum x # CNum y # rest))
   \<and> shape_of (fst (transformCoordinates T c)) = shape_of c
   \<and> map feature_shape (features (fst (reprojectGeoJSON proj4_global collection fromCRS toCRS)))
       = map feature_shape (features collection)"
  using transformLeaf_NaN_input[of x y T rest] transformLeaf_NaN_output[of T x y lon lat rest]
  by (simp add: shape_transformCoordinates features_reprojectGeoJSON)

theorem transformCoordinates_NaN_retained_witness:
  "fst (transformCoordinates (forward_const (Fin 1) (Fin 2)) (CArr [CNum NaN, CNum (Fin 7500000), CNum (Fin 3)]))
     = CArr [CNum NaN, CNum (Fin 7500000), CNum (Fin 3)]
   \<and> fst (transformCoordinates forward_NaN (CArr [CNum (Fin 500000), CNum (Fin 7500000)]))
     = CArr [CNum (Fin 500000), CNum (Fin 7500000)]"
  using transformCoordinates_NaN_retained[of NaN "Fin 7500000" "forward_const (Fin 1) (Fin 2)" "[CNum (Fin 3)]"]
    transformCoordinates_NaN_retained[of "Fin 500000" "Fin 7500000" forward_NaN "[]" NaN NaN]
  by (simp add: forward_NaN_def)

subsection \<open>Range of the output\<close>

lemma transformLeaf_in_range:
  "\<not> isNaN x \<Longrightarrow> \<not> isNaN y \<Longrightarrow> T x y = Some (lon, lat) \<Longrightarrow> lonlat_in_range lon lat
   \<Longrightarrow> transformLeaf T x y rest = (CArr [CNum lon, CNum lat], [])"
  by (simp add: transformLeaf_def lonlat_in_range_def)

lemma transformLeaf_out_of_range:
  "\<not> isNaN x \<Longrightarrow> \<not> isNaN y \<Longrightarrow> T x y = Some (lon, lat) \<Longrightarrow> \<not> isNaN lon \<Longrightarrow> \<not> isNaN lat
   \<Longrightarrow> \<not> lonlat_in_range lon lat
   \<Longrightarrow> fst (transformLeaf T x y rest) \<in> {CArr [CNum lon, CNum lat], CArr [CNum lat, CNum lon]}
       \<and> take 2 (snd (transformLeaf T x y rest))
           = [Error_out_of_range lon lat, Error_original_coordinate x y]"
  by (simp add: transformLeaf_def lonlat_in_range_def)

lemma transformLeaf_NaN_input_warns:
  "isNaN x \<or> isNaN y
   \<Longrightarrow> transformLeaf T x y rest = (CArr (CNum x # CNum y # rest), [Warn_NaN_coordinate x y])"
  by (simp add: transformLeaf_def)

lemma transformLeaf_throws_warns:
  "\<not> isNaN x \<Longrightarrow> \<not> isNaN y \<Longrightarrow> T x y = None
   \<Longrightarrow> transformLeaf T x y rest = (CArr (CNum x # CNum y # rest), [Warn_transform_error x y])"
  by (simp add: transformLeaf_def)

lemma transformLeaf_NaN_result_warns:
  "\<not> isNaN x \<Longrightarrow> \<not> isNaN y \<Longrightarrow> T x y = Some (lon, lat) \<Longrightarrow> isNaN lon \<or> isNaN lat
   \<Longrightarrow> transformLeaf T x y rest = (CArr (CNum x # CNum y # rest), [Warn_NaN_result x y])"
  by (simp add: transformLeaf_def)

text \<open>
  C4 (as amended). An out-of-range pair is never returned silently: when a coordinate value
  is reprojected without any console output, every position of the result is a valid
  longitude and latitude. A position is returned as it was given, with one warning that
  names it, when its input has a \<open>NaN\<close>, when the transform throws, and when the transformed
  pair has a \<open>NaN\<close>. Otherwise, a transformed pair in range is returned as it is, with no
  console output; a transformed pair out of range is reported by two error events, the
  first naming the pair and the second the input, and the result is that pair in one of
  the two orders.
\<close>

theorem transformCoordinates_out_of_range_detected:
  "(snd (transformCoordinates T c) = [] \<longrightarrow>
      all_positions lonlat_in_range (fst (transformCoordinates T c)))
   \<and> (isNaN x \<or> isNaN y \<longrightarrow>
        transformCoordinates T (CArr (CNum x # CNum y # rest))
          = (CArr (CNum x # CNum y # rest), [Warn_NaN_coordinate x y]))
   \<and> (\<not> isNaN x \<and> \<not> isNaN y \<and> T x y = None \<longrightarrow>
        transformCoordinates T (CArr (CNum x # CNum y # rest))
          = (CArr (CNum x # CNum y # rest), [Warn_transform_error x y]))
   \<and> (\<not> isNaN x \<and> \<not> isNaN y \<and> T x y = Some (lon, lat) \<longrightarrow>
       (isNaN lon \<or> isNaN lat \<longrightarrow>
          transformCoordinates T (CArr (CNum x # CNum y # rest))
            = (CArr (CNum x # CNum y # rest), [Warn_NaN_result x y]))
       \<and> (lonlat_in_range lon lat \<longrightarrow>
          transformCoordinates T (CArr (CNum x # CNum y # rest)) = (CArr [CNum lon, CNum lat], []))
       \<and> (\<not> isNaN lon \<and> \<not> isNaN lat \<and> \<not> lonlat_in_range lon lat \<longrightarrow>
          fst (transformCoordinates T (CArr (CNum x # CNum y # rest)))
            \<in> {CArr [CNum lon, CNum lat], CArr [CNum lat, CNum lon]}
          \<and> take 2 (snd (transformCoordinates T (CArr (CNum x # CNum y # rest))))
              = [Error_out_of_range lon lat, Error_original_coordinate x y]))"
proof -
  have "snd (transformCoordinates T c) = [] \<longrightarrow>
      all_positions lonlat_in_range (fst (transformCoordinates T c))"
    using silent_valid[of T c] by blast
  moreover have "isNaN x \<or> isNaN y \<longrightarrow>
        transformCoordinates T (CArr (CNum x # CNum y # rest))
          = (CArr (CNum x # CNum y # rest), [Warn_NaN_coordinate x y])"
    using transformLeaf_NaN_input_warns[of x y T rest] by simp
  moreover have "\<not> isNaN x \<and> \<not> isNaN y \<and> T x y = None \<longrightarrow>
        transformCoordinates T (CArr (CNum x # CNum y # rest))
          = (CArr (CNum x # CNum y # rest), [Warn_transform_error x y])"
    using transformLeaf_throws_warns[of x y T rest] by simp
  moreover have "\<not> isNaN x \<and> \<not> isNaN y \<and> T x y = Some (lon, lat) \<longrightarrow>
       (isNaN lon \<or> isNaN lat \<longrightarrow>
          transformCoordinates T (CArr (CNum x # CNum y # rest))
            = (CArr (CNum x # CNum y # rest), [Warn_NaN_result x y]))"
    using transformLeaf_NaN_result_warns[of x y T lon lat rest] by simp
  moreover have "\<not> isNaN x \<and> \<not> isNaN y \<and> T x y = Some (lon, lat) \<longrightarrow>
       (lonlat_in_range lon lat \<longrightarrow>
          transformCoordinates T (CArr (CNum x # CNum y # rest)) = (CArr [CNum lon, CNum lat], []))"
    using transformLeaf_in_range[of x y T lon lat rest] by simp
  moreover have "\<not> isNaN x \<and> \<not> isNaN y \<and> T x y = Some (lon, lat) \<longrightarrow>
       (\<not> isNaN lon \<and> \<not> isNaN lat \<and> \<not> lonlat_in_range lon lat \<longrightarrow>
          fst (transformCoordinates T (CArr (CNum x # CNum y # rest)))
            \<in> {CArr [CNum lon, CNum lat], CArr [CNum lat, CNum lon]}
          \<and> take 2 (snd (transformCoordinates T (CArr (CNum x # CNum y # rest))))
              = [Error_out_of_range lon lat, Error_original_coordinate x y])"
    using transformLeaf_out_of_range[of x y T lon lat rest] by simp
  ultimately show ?thesis by blast
qed

theorem transformCoordinates_out_of_range_detected_witness:
  "all_positions lonlat_in_range
     (fst (transformCoordinates (forward_const (Fin (-57)) (Fin (-22)))
        (CArr [CArr [CNum (Fin 500000), CNum (Fin 7500000)]])))
   \<and> transformCoordinates (forward_const (Fin (-57)) (Fin (-22))) (CArr [CNum (Fin 500000), CNum (Fin 7500000)])
      = (CArr [CNum (Fin (-57)), CNum (Fin (-22))], [])
   \<and> transformCoordinates (forward_const (Fin (-57)) (Fin (-22))) (CArr [CNum NaN, CNum (Fin 7500000)])
      = (CArr [CNum NaN, CNum (Fin 7500000)], [Warn_NaN_coordinate NaN (Fin 7500000)])
   \<and> transformCoordinates forward_throws (CArr [CNum (Fin 500000), CNum (Fin 7500000)])
      = (CArr [CNum (Fin 500000), CNum (Fin 7500000)],
         [Warn_transform_error (Fin 500000) (Fin 7500000)])
   \<and> transformCoordinates forward_NaN (CArr [CNum (Fin 500000), CNum (Fin 7500000)])
      = (CArr [CNum (Fin 500000), CNum (Fin 7500000)],
         [Warn_NaN_result (Fin 500000) (Fin 7500000)])
   \<and> fst (transformCoordinates (forward_const (Fin 200) (Fin 50)) (CArr [CNum (Fin 500000), CNum (Fin 7500000)]))
      \<in> {CArr [CNum (Fin 200), CNum (Fin 50)], CArr [CNum (Fin 50), CNum (Fin 200)]}
   \<and> take 2 (snd (transformCoordinates (forward_const (Fin 200) (Fin 50)) (CArr [CNum (Fin 500000), CNum (Fin 7500000)])))
      = [Error_out_of_range (Fin 200) (Fin 50), Error_original_coordinate (Fin 500000) (Fin 7500000)]"
  using transformCoordinates_out_of_range_detected[of "forward_const (Fin (-57)) (Fin (-22))"
      "CArr [CArr [CNum (Fin 500000), CNum (Fin 7500000)]]" "Fin 500000" "Fin 7500000" "[]" "Fin (-57)" "Fin (-22)"]
    transformCoordinates_out_of_range_detected[of "forward_const (Fin (-57)) (Fin (-22))"
      "CNum NaN" NaN "Fin 7500000" "[]" "Fin (-57)" "Fin (-22)"]
    transformCoordinates_out_of_range_detected[of forward_throws
      "CNum NaN" "Fin 500000" "Fin 7500000" "[]" NaN NaN]
    transformCoordinates_out_of_range_detected[of forward_NaN
      "CNum NaN" "Fin 500000" "Fin 7500000" "[]" NaN NaN]
    transformCoordinates_out_of_range_detected[of "forward_const (Fin 200) (Fin 50)"
      "CNum NaN" "Fin 500000" "Fin 7500000" "[]" "Fin 200" "Fin 50"]
  by (simp add: forward_const_def forward_NaN_def forward_throws_def lonlat_in_range_def
      transformLeaf_def)

text \<open>
  C4 as stated fails: when the transform yields \<open>NaN\<close> or throws, the output is the
  original projected pair, which is far out of range.
\<close>

theorem transformCoordinates_in_range_counterexample:
  "fst (transformCoordinates forward_NaN (CArr [CNum (Fin 500000), CNum (Fin 7500000)]))
     = CArr [CNum (Fin 500000), CNum (Fin 7500000)]
   \<and> \<not> all_positions lonlat_in_range
       (fst (transformCoordinates forward_NaN (CArr [CNum (Fin 500000), CNum (Fin 7500000)])))
   \<and> \<not> all_positions lonlat_in_range
       (fst (transformCoordinates forward_throws (CArr [CNum (Fin 500000), CNum (Fin 7500000)])))"
  by (simp add: forward_NaN_def forward_throws_def transformLeaf_def lonlat_in_range_def)

section \<open>Properties of the attribute join\<close>

lemma find_append_snoc:
  "find P (xs @ [x]) = (case find P xs of Some y \<Rightarrow> Some y | None \<Rightarrow> if P x then Some x else None)"
  by (induction xs) simp_all

lemma map_of_fold_update:
  "map_of (fold (\<lambda>row m. AList.update (k row) row m) rows m0) key =
     (case find (\<lambda>row. k row = key) (rev rows) of Some r \<Rightarrow> Some r | None \<Rightarrow> map_of m0 key)"
proof (induction rows arbitrary: m0)
  case Nil
  then show ?case by simp
next
  case (Cons r rows)
  show ?case
    by (simp add: Cons.IH find_append_snoc update_conv' split: option.split)
qed

lemma map_of_buildSpreadsheetMap:
  "map_of (buildSpreadsheetMap ns sc rows) key = find (\<lambda>row. rowKey ns sc row = key) (rev rows)"
  by (simp add: buildSpreadsheetMap_def map_of_fold_update split: option.split)

lemma map_of_spread_gen:
  "map_of (spread a b) c = (case map_of (rev b) c of Some v \<Rightarrow> Some v | None \<Rightarrow> map_of a c)"
  unfolding spread_def
proof (induction b arbitrary: a)
  case Nil
  then show ?case by simp
next
  case (Cons kv b)
  obtain k v where kv: "kv = (k, v)" by (cases kv)
  show ?case
    by (simp add: kv Cons.IH update_conv' map_add_def split: option.split)
qed

lemma map_of_rev_distinct: "distinct (map fst b) \<Longrightarrow> map_of (rev b) c = map_of b c"
proof (induction b)
  case Nil
  then show ?case by simp
next
  case (Cons kv b)
  obtain k v where kv: "kv = (k, v)" by (cases kv)
  from Cons.prems kv have "map_of b k = None"
    by (simp add: map_of_eq_None_iff)
  with Cons kv show ?case
    by (auto simp: map_add_def split: option.split)
qed

lemma map_of_spread:
  "distinct (map fst b) \<Longrightarrow>
   map_of (spread a b) c = (case map_of b c of Some v \<Rightarrow> Some v | None \<Rightarrow> map_of a c)"
  by (simp add: map_of_spread_gen map_of_rev_distinct)

lemma isDepthColumn_iff: "isDepthColumn col \<longleftrightarrow> js_includes (toLowerCase col) ''prof''"
  by (auto simp: isDepthColumn_def)

lemma rowHasDepth_iff:
  "rowHasDepth ns nd col row \<longleftrightarrow>
     (\<exists>v. map_of row col = Some v \<and> v \<noteq> JNull \<and> v \<noteq> JStr ''NULL'' \<and> v \<noteq> JStr []
        \<and> trim (js_String ns (Some v)) \<noteq> [] \<and> normalizeDepth (js_String ns (Some v)) = nd)"
  by (cases "map_of row col") (auto simp: rowHasDepth_def Let_def normalizeDepth_def)

text \<open>
  The two keys differ on falsy values: a feature whose join attribute is missing, \<open>null\<close>,
  \<open>false\<close>, 0 or empty has the key \<open>''\<close>, a record with the value 0 has the text of 0.
\<close>

lemma featureKey_falsy:
  "\<not> truthy (map_of (properties f) col) \<Longrightarrow> featureKey ns col f = []"
  by (simp add: featureKey_def Let_def toLowerCase_def trim_def)

lemma rowKey_zero: "map_of row col = Some (JNum (Fin 0)) \<Longrightarrow> rowKey ns col row = trim (toLowerCase (ns (Fin 0)))"
  by (simp add: rowKey_def)

lemma mergeFeature_geometry: "geometry (mergeFeature ns fcol m f) = geometry f"
  by (simp add: mergeFeature_def split: option.split)

lemma merge_length: "length (features (geojson (merge ns tbl fc sc fcol depth))) = length (features fc)"
  by (simp add: merge_def Let_def)

lemma merge_geometry: "map geometry (features (geojson (merge ns tbl fc sc fcol depth))) = map geometry (features fc)"
  by (simp add: merge_def Let_def mergeFeature_geometry comp_def)

lemma merge_totalCount: "totalCount (merge ns tbl fc sc fcol depth) = length (features fc)"
  by (simp add: merge_def Let_def)

lemma api_merge_Inr:
  "api_merge ns req = Inr resp \<Longrightarrow>
   \<exists>tbl fc sc fcol. spreadsheetData req = Some tbl \<and> shapefileGeoJson req = Some fc
      \<and> spreadsheetColumn req = Some sc \<and> shapefileColumn req = Some fcol \<and> sc \<noteq> [] \<and> fcol \<noteq> []
      \<and> resp = merge ns tbl fc sc fcol (selectedDepth req)"
  by (auto simp: api_merge_def split: option.splits if_splits)

text \<open>
  C1. The merged collection has exactly as many features as the input collection, with the
  same geometries in the same order, for every table, collection, key pair and depth filter;
  \<open>totalCount\<close> is that number. Whenever the handler answers with a result at all (its
  four required fields are present), the result has as many features as the collection of
  the request.
\<close>

theorem merge_total:
  "length (features (geojson (merge ns tbl fc sc fcol depth))) = length (features fc)
   \<and> map geometry (features (geojson (merge ns tbl fc sc fcol depth))) = map geometry (features fc)
   \<and> totalCount (merge ns tbl fc sc fcol depth) = length (features fc)
   \<and> (api_merge ns req = Inr resp \<longrightarrow>
        (\<exists>fc'. shapefileGeoJson req = Some fc'
           \<and> length (features (geojson resp)) = length (features fc')))"
proof -
  have "api_merge ns req = Inr resp \<longrightarrow>
        (\<exists>fc'. shapefileGeoJson req = Some fc'
           \<and> length (features (geojson resp)) = length (features fc'))"
    using api_merge_Inr[of ns req resp] by (auto simp: merge_length)
  then show ?thesis by (simp add: merge_length merge_geometry merge_totalCount)
qed

theorem merge_total_witness:
  "api_merge small_numToString sample_request
     = Inr (merge small_numToString sample_table sample_features ''Farm'' ''Farm'' (Some ''0-20 cm''))
   \<and> length (features (geojson
        (merge small_numToString sample_table sample_features ''Farm'' ''Farm'' (Some ''0-20 cm'')))) = 1"
  using merge_total[of small_numToString sample_table sample_features "''Farm''" "''Farm''"
      "Some ''0-20 cm''" sample_request
      "merge small_numToString sample_table sample_features ''Farm'' ''Farm'' (Some ''0-20 cm'')"]
  by (simp add: api_merge_def sample_request_def sample_features_def)

text \<open>
  The join apart from the keys. The lookup maps a key to the last record of the (filtered)
  table with that row key. A feature whose key has no record is passed through unchanged; a
  feature whose key has one keeps its geometry, and its attributes are its own overlaid by
  the record's columns.
\<close>

lemma mergeFeature_overlay:
  "map_of (buildSpreadsheetMap ns sc rows) key = find (\<lambda>row. rowKey ns sc row = key) (rev rows)
   \<and> (i < length (features fc) \<longrightarrow>
       (let f = features fc ! i;
            out = features (geojson (merge ns tbl fc sc fcol depth)) ! i
        in case find (\<lambda>row. rowKey ns sc row = featureKey ns fcol f)
                  (rev (filterByDepth ns depth tbl)) of
             None \<Rightarrow> out = f
           | Some row \<Rightarrow>
               geometry out = geometry f
               \<and> properties out = spread (properties f) row
               \<and> (distinct (map fst row) \<longrightarrow>
                    (\<forall>c. map_of (properties out) c =
                       (case map_of row c of Some v \<Rightarrow> Some v | None \<Rightarrow> map_of (properties f) c)))))"
  by (simp add: map_of_buildSpreadsheetMap merge_def Let_def mergeFeature_def map_of_spread
      split: option.split)

text \<open>
  C5 fails on the code for the join value 0. Request: a table of one record with \<open>id\<close> 0 and
  a collection of one feature with \<open>id\<close> 0, joined on \<open>id\<close>, no depth filter. The key of the
  record is the text \<open>0\<close>, the key of the feature is the empty text, because 0 is falsy: the
  feature is returned without the columns of its record and counted as unmatched. With the
  value 1 on both sides the same request joins the two, and with texts that differ in letter
  case and outer blanks the feature is joined to the last record of its key.
\<close>

theorem merge_zero_not_joined:
  "rowKey small_numToString ''id'' (hd (id_table 0)) = ''0''
   \<and> featureKey small_numToString ''id'' (hd (features (id_features 0))) = []
   \<and> merge small_numToString (id_table 0) (id_features 0) ''id'' ''id'' None
       = \<lparr>success = True, geojson = id_features 0,
          matchedCount = 0, totalCount = 1, unmatchedCount = 1\<rparr>
   \<and> map properties
        (features (geojson (merge small_numToString (id_table 1) (id_features 1) ''id'' ''id'' None)))
       = [[(''id'', JNum (Fin 1)), (''Zn'', JNum (Fin 1.2))]]
   \<and> matchedCount (merge small_numToString (id_table 1) (id_features 1) ''id'' ''id'' None) = 1
   \<and> map properties
        (features (geojson
           (merge small_numToString duplicate_table sample_features ''Farm'' ''Farm'' None)))
       = [[(''Farm'', JStr '' a''), (''Zn'', JNum (Fin 2)), (''Cu'', JNum (Fin 20))]]
   \<and> matchedCount (merge small_numToString duplicate_table sample_features ''Farm'' ''Farm'' None)
       = 1"
  by (simp add: merge_def mergeFeature_def buildSpreadsheetMap_def rowKey_def featureKey_def
      filterByDepth_def id_table_def id_features_def duplicate_table_def sample_features_def
      small_numToString_def toLowerCase_def lower_char_def trim_def is_space_def spread_def
      Let_def)

text \<open>
  C8 (as amended). Without a depth filter (absent or empty) the table is unchanged. With one,
  the depth column is the first column of the first record whose lower-cased name contains
  \<open>prof\<close>; when there is none the table is unchanged; otherwise a record is retained
  exactly when its depth cell is present, is not \<open>null\<close>, not the text \<open>NULL\<close>, not empty
  and not blank, and its normalisation (trim, delete each white-space padded \<open>cm\<close>,
  lower-case) equals the normalisation of the filter.
\<close>

theorem filterByDepth_retains:
  "filterByDepth ns None tbl = tbl
   \<and> filterByDepth ns (Some []) tbl = tbl
   \<and> (d \<noteq> [] \<longrightarrow>
       filterByDepth ns (Some d) tbl =
         (case find (\<lambda>col. js_includes (toLowerCase col) ''prof'')
                 (map fst (case tbl of [] \<Rightarrow> [] | row # _ \<Rightarrow> row)) of
            None \<Rightarrow> tbl
          | Some col \<Rightarrow>
              filter (\<lambda>row. \<exists>v. map_of row col = Some v
                        \<and> v \<noteq> JNull \<and> v \<noteq> JStr ''NULL'' \<and> v \<noteq> JStr []
                        \<and> trim (js_String ns (Some v)) \<noteq> []
                        \<and> normalizeDepth (js_String ns (Some v)) = normalizeDepth d) tbl))"
proof -
  have "isDepthColumn = (\<lambda>col. js_includes (toLowerCase col) ''prof'')"
    by (rule ext) (rule isDepthColumn_iff)
  moreover have "rowHasDepth ns (normalizeDepth d) col =
      (\<lambda>row. \<exists>v. map_of row col = Some v
                        \<and> v \<noteq> JNull \<and> v \<noteq> JStr ''NULL'' \<and> v \<noteq> JStr []
                        \<and> trim (js_String ns (Some v)) \<noteq> []
                        \<and> normalizeDepth (js_String ns (Some v)) = normalizeDepth d)" for col
    by (rule ext) (rule rowHasDepth_iff)
  ultimately show ?thesis
    by (simp add: filterByDepth_def depthColumn_def split: option.split)
qed

theorem filterByDepth_retains_witness:
  "filterByDepth small_numToString (Some ''0-20 cm'') sample_table = sample_table"
  using filterByDepth_retains[of small_numToString sample_table "''0-20 cm''"]
  by (simp add: sample_table_def toLowerCase_def lower_char_def normalizeDepth_def trim_def
      is_space_def match_cm_def)

text \<open>
  C8 as stated fails: a depth cell \<open>NULL\<close> normalises to the same text as the filter
  \<open>null\<close>, and the record is dropped all the same.
\<close>

theorem filterByDepth_exactly_counterexample:
  "depthColumn null_depth_table = Some ''Prof''
   \<and> normalizeDepth (js_String small_numToString (map_of (hd null_depth_table) ''Prof''))
       = normalizeDepth ''null''
   \<and> filterByDepth small_numToString (Some ''null'') null_depth_table = []"
  by code_simp

section \<open>Properties of the interpolation orchestrator\<close>

lemma interpolations_recordClose:
  "interpolations (recordClose ctx param run code res)
     = AList.update param (closeOutcome ctx param run code) (interpolations res)"
  by (simp add: recordClose_def closeOutcome_def Let_def)

lemma eventLoop_idle: "waiting st = [] \<Longrightarrow> eventLoop ctx pick fuel st = st"
  by (cases fuel) (simp_all add: ready_def)

lemma fire_exited:
  "fire ctx (i, k, [Close code]) st =
     processParameter ctx (i + 1)
       (st\<lparr>waiting := remove1 (i, k, [Close code]) (waiting st),
            results_now := recordClose ctx (parameters ctx ! i) (workers ctx k) code (results_now st)\<rparr>)"
  by (simp add: fire_def)

text \<open>
  A batch in which every worker is launched and ends: one worker is waiting at any time,
  so the scheduler has no choice, and after as many events as there are parameters the
  request has answered once, with the results of the \<open>close\<close> listeners in order.
\<close>

lemma eventLoop_exited:
  assumes "\<forall>k. j \<le> k \<and> k < length (parameters ctx) \<longrightarrow> (\<exists>code. fate (workers ctx k) = Exited code)"
    and "j < length (parameters ctx)" and "length (parameters ctx) - j \<le> fuel"
  shows "eventLoop ctx pick fuel
           \<lparr>results_now = r, responses = [],
            waiting = [(j, j, worker_events (fate (workers ctx j)))], spawns = Suc j\<rparr>
     = \<lparr>results_now = runJobs ctx [j..<length (parameters ctx)] r,
        responses = [runJobs ctx [j..<length (parameters ctx)] r],
        waiting = [], spawns = length (parameters ctx)\<rparr>"
  using assms
proof (induction fuel arbitrary: j r)
  case 0
  then show ?case by simp
next
  case (Suc fuel)
  let ?n = "length (parameters ctx)"
  let ?st = "\<lparr>results_now = r, responses = [],
              waiting = [(j, j, worker_events (fate (workers ctx j)))], spawns = Suc j\<rparr>"
  from Suc.prems obtain code where code: "fate (workers ctx j) = Exited code" by auto
  let ?r = "recordClose ctx (parameters ctx ! j) (workers ctx j) code r"
  have rd: "ready ?st = [(j, j, [Close code])]" by (simp add: ready_def code)
  have step: "eventLoop ctx pick (Suc fuel) ?st
      = eventLoop ctx pick fuel (fire ctx (j, j, [Close code]) ?st)"
    by (simp add: rd)
  have rj: "runJobs ctx [j..<?n] r = runJobs ctx [Suc j..<?n] ?r"
    using Suc.prems(2) by (simp add: runJobs_def upt_conv_Cons code)
  show ?case
  proof (cases "Suc j < ?n")
    case True
    have f: "fire ctx (j, j, [Close code]) ?st
        = \<lparr>results_now = ?r, responses = [],
           waiting = [(Suc j, Suc j, worker_events (fate (workers ctx (Suc j))))],
           spawns = Suc (Suc j)\<rparr>"
      using True by (simp add: fire_exited processParameter_def code)
    have "eventLoop ctx pick fuel
            \<lparr>results_now = ?r, responses = [],
             waiting = [(Suc j, Suc j, worker_events (fate (workers ctx (Suc j))))],
             spawns = Suc (Suc j)\<rparr>
        = \<lparr>results_now = runJobs ctx [Suc j..<?n] ?r, responses = [runJobs ctx [Suc j..<?n] ?r],
           waiting = [], spawns = ?n\<rparr>"
      using Suc.prems True by (intro Suc.IH) auto
    with step f rj show ?thesis by simp
  next
    case False
    with Suc.prems(2) have n: "?n = Suc j" by simp
    have f: "fire ctx (j, j, [Close code]) ?st
        = \<lparr>results_now = ?r, responses = [?r], waiting = [], spawns = Suc j\<rparr>"
      using n by (simp add: fire_exited processParameter_def code)
    have "runJobs ctx [Suc j..<?n] ?r = ?r" using n by (simp add: runJobs_def)
    with step f rj n show ?thesis by (simp add: eventLoop_idle)
  qed
qed

lemma eventLoop_exited_batch:
  assumes "\<forall>k<length (parameters ctx). \<exists>code. fate (workers ctx k) = Exited code"
    and "length (parameters ctx) \<le> fuel"
  shows "eventLoop ctx pick fuel
           (processParameter ctx 0 \<lparr>results_now = r, responses = [], waiting = [], spawns = 0\<rparr>)
     = \<lparr>results_now = runJobs ctx [0..<length (parameters ctx)] r,
        responses = [runJobs ctx [0..<length (parameters ctx)] r],
        waiting = [], spawns = length (parameters ctx)\<rparr>"
proof (cases "parameters ctx = []")
  case True
  then show ?thesis by (simp add: processParameter_def runJobs_def eventLoop_idle)
next
  case False
  then have "processParameter ctx 0 \<lparr>results_now = r, responses = [], waiting = [], spawns = 0\<rparr>
      = \<lparr>results_now = r, responses = [],
         waiting = [(0, 0, worker_events (fate (workers ctx 0)))], spawns = Suc 0\<rparr>"
    by (simp add: processParameter_def)
  moreover have "eventLoop ctx pick fuel
        \<lparr>results_now = r, responses = [],
         waiting = [(0, 0, worker_events (fate (workers ctx 0)))], spawns = Suc 0\<rparr>
     = \<lparr>results_now = runJobs ctx [0..<length (parameters ctx)] r,
        responses = [runJobs ctx [0..<length (parameters ctx)] r],
        waiting = [], spawns = length (parameters ctx)\<rparr>"
    using assms False by (intro eventLoop_exited) auto
  ultimately show ?thesis by simp
qed

lemma map_of_interpolations_runJobs:
  "map_of (interpolations (runJobs ctx js res)) p =
     (case find (\<lambda>j. parameters ctx ! j = p) (rev js) of
        Some j \<Rightarrow> Some (closeOutcome ctx p (workers ctx j) (exit_code (fate (workers ctx j))))
      | None \<Rightarrow> map_of (interpolations res) p)"
proof (induction js arbitrary: res)
  case Nil
  then show ?case by (simp add: runJobs_def)
next
  case (Cons j js)
  have "runJobs ctx (j # js) res
      = runJobs ctx js (recordClose ctx (parameters ctx ! j) (workers ctx j)
                          (exit_code (fate (workers ctx j))) res)"
    by (simp add: runJobs_def)
  then show ?case
    by (auto simp: Cons.IH find_append_snoc interpolations_recordClose update_conv'
        split: option.split)
qed

lemma find_last_index:
  "i < n \<Longrightarrow> P i \<Longrightarrow> \<forall>j. i < j \<and> j < n \<longrightarrow> \<not> P j \<Longrightarrow> find P (rev [0..<n]) = Some i"
proof (induction n)
  case 0
  then show ?case by simp
next
  case (Suc n)
  show ?case
  proof (cases "i = n")
    case True
    with Suc.prems show ?thesis by simp
  next
    case False
    with Suc.prems have "i < n" "\<not> P n" by auto
    with Suc show ?thesis by simp
  qed
qed

lemma not_later_nth:
  assumes "i < length xs" "xs ! i \<notin> set (drop (Suc i) xs)"
  shows "\<forall>j. i < j \<and> j < length xs \<longrightarrow> xs ! j \<noteq> xs ! i"
proof (intro allI impI)
  fix j assume j: "i < j \<and> j < length xs"
  then have "xs ! j = drop (Suc i) xs ! (j - Suc i)" "j - Suc i < length (drop (Suc i) xs)"
    by auto
  then have "xs ! j \<in> set (drop (Suc i) xs)" by (metis nth_mem)
  with assms show "xs ! j \<noteq> xs ! i" by metis
qed

text \<open>
  In such a batch the answer holds, for each parameter (at its last position in the
  list), the entry of its own worker: a failure with the captured standard error (or a
  fixed text) after an exit code other than 0, a failure with a fixed text when the
  raster is missing, a success otherwise. One worker's failure does not end the batch.
\<close>

lemma exited_batch_isolates_failures:
  assumes "\<forall>k<length (parameters ctx). \<exists>code. fate (workers ctx k) = Exited code"
    and "length (parameters ctx) \<le> fuel"
    and "i < length (parameters ctx)"
    and "parameters ctx ! i \<notin> set (drop (Suc i) (parameters ctx))"
  shows "\<exists>res. responses (eventLoop ctx pick fuel
             (processParameter ctx 0 \<lparr>results_now = r, responses = [], waiting = [], spawns = 0\<rparr>)) = [res]
     \<and> (\<forall>code. fate (workers ctx i) = Exited code \<and> code \<noteq> Some 0 \<longrightarrow>
           map_of (interpolations res) (parameters ctx ! i)
             = Some (Job_failure (if stderr (workers ctx i) \<noteq> [] then stderr (workers ctx i)
                                  else ''Erro desconhecido'')))
     \<and> (fate (workers ctx i) = Exited (Some 0) \<and> \<not> tiffExists (workers ctx i) \<longrightarrow>
           map_of (interpolations res) (parameters ctx ! i) = Some (Job_failure tiff_missing))
     \<and> (fate (workers ctx i) = Exited (Some 0) \<and> tiffExists (workers ctx i) \<longrightarrow>
           (\<exists>file st. map_of (interpolations res) (parameters ctx ! i) = Some (Job_success file st)))"
proof -
  let ?res = "runJobs ctx [0..<length (parameters ctx)] r"
  have "find (\<lambda>j. parameters ctx ! j = parameters ctx ! i) (rev [0..<length (parameters ctx)]) = Some i"
    using find_last_index[of i "length (parameters ctx)" "\<lambda>j. parameters ctx ! j = parameters ctx ! i"]
      not_later_nth[OF assms(3,4)] assms(3) by simp
  then have "map_of (interpolations ?res) (parameters ctx ! i)
      = Some (closeOutcome ctx (parameters ctx ! i) (workers ctx i) (exit_code (fate (workers ctx i))))"
    by (simp add: map_of_interpolations_runJobs)
  moreover have "responses (eventLoop ctx pick fuel
             (processParameter ctx 0 \<lparr>results_now = r, responses = [], waiting = [], spawns = 0\<rparr>)) = [?res]"
    using eventLoop_exited_batch[OF assms(1,2)] by simp
  ultimately show ?thesis
    by (auto simp: closeOutcome_def)
qed

text \<open>
  A worker that cannot be launched fires both listeners. The second overwrites the entry
  of the first, so the launch error is lost, and each of the two calls
  \<open>processParameter\<close> for the next index: the next worker is spawned twice, or, after the
  last parameter, \<open>res.json\<close> is called twice.
\<close>

lemma fire_launch_failed:
  assumes "errno \<noteq> 0" and "Suc i < length (parameters ctx)"
  shows "fire ctx (i, k, [Close (Some errno)])
           (fire ctx (i, k, [Spawn_error msg, Close (Some errno)])
              \<lparr>results_now = r, responses = rs,
               waiting = [(i, k, [Spawn_error msg, Close (Some errno)])], spawns = n\<rparr>)
     = \<lparr>results_now =
          r\<lparr>interpolations :=
              AList.update (parameters ctx ! i)
                (Job_failure (if stderr (workers ctx k) \<noteq> [] then stderr (workers ctx k)
                              else ''Erro desconhecido''))
                (interpolations r)\<rparr>,
        responses = rs,
        waiting = [(Suc i, n, worker_events (fate (workers ctx n))),
                   (Suc i, Suc n, worker_events (fate (workers ctx (Suc n))))],
        spawns = Suc (Suc n)\<rparr>"
  using assms
  by (simp add: fire_def processParameter_def recordClose_def recordError_def)

lemma eventLoop_one_ready:
  "ready st = [a] \<Longrightarrow>
   eventLoop ctx pick (numeral n) st = eventLoop ctx pick (pred_numeral n) (fire ctx a st)"
  by (simp add: numeral_eq_Suc)

lemma eventLoop_two_ready:
  "ready st = [a, b] \<Longrightarrow>
   eventLoop ctx pick (numeral n) st
     = eventLoop ctx pick (pred_numeral n) (fire ctx (if even (pick st) then a else b) st)"
proof -
  assume r: "ready st = [a, b]"
  have "[a, b] ! (pick st mod 2) = (if even (pick st) then a else b)"
    by (cases "even (pick st)") (simp_all add: even_iff_mod_2_eq_zero odd_iff_mod_2_eq_one)
  with r show ?thesis
    by (simp add: numeral_eq_Suc)
qed

lemma eventLoop_last_ready:
  "ready st = [a] \<Longrightarrow> eventLoop ctx pick 1 st = fire ctx a st"
  by simp

text \<open>The request whose first launch fails, event by event.\<close>

lemma launch_failure_start:
  "processParameter launch_failure_context 0 initial_state
     = \<lparr>results_now = empty_results, responses = [],
        waiting = [(0, 0, [Spawn_error ''spawn python3 EAGAIN'', Close (Some (- 11))])],
        spawns = 1\<rparr>"
  by (simp add: processParameter_def initial_state_def launch_failure_context_def
      launch_failure_workers_def)

lemma launch_failure_error:
  "fire launch_failure_context (0, 0, [Spawn_error ''spawn python3 EAGAIN'', Close (Some (- 11))])
     \<lparr>results_now = empty_results, responses = [],
      waiting = [(0, 0, [Spawn_error ''spawn python3 EAGAIN'', Close (Some (- 11))])],
      spawns = 1\<rparr>
   = \<lparr>results_now = empty_results\<lparr>interpolations :=
          [(''Zn'', Job_failure ''Erro ao executar Python: spawn python3 EAGAIN'')]\<rparr>,
      responses = [],
      waiting = [(0, 0, [Close (Some (- 11))]), (1, 1, [Close (Some 0)])], spawns = 2\<rparr>"
  by (simp add: processParameter_def launch_failure_context_def launch_failure_workers_def
      success_run_def fire_def recordError_def empty_results_def)

lemma launch_failure_close:
  "fire launch_failure_context (0, 0, [Close (Some (- 11))])
     \<lparr>results_now = empty_results\<lparr>interpolations :=
          [(''Zn'', Job_failure ''Erro ao executar Python: spawn python3 EAGAIN'')]\<rparr>,
      responses = [],
      waiting = [(0, 0, [Close (Some (- 11))]), (1, 1, [Close (Some 0)])], spawns = 2\<rparr>
   = \<lparr>results_now = empty_results\<lparr>interpolations := [(''Zn'', Job_failure ''Erro desconhecido'')]\<rparr>,
      responses = [],
      waiting = [(1, 1, [Close (Some 0)]), (1, 2, [Close (Some 0)])], spawns = 3\<rparr>"
  by (simp add: processParameter_def launch_failure_context_def launch_failure_workers_def
      success_run_def fire_def recordClose_def empty_results_def)

lemma launch_failure_fire:
  "k = 1 \<or> k = 2 \<Longrightarrow>
   fire launch_failure_context (1, k, [Close (Some 0)])
     \<lparr>results_now = empty_results\<lparr>interpolations := [(''Zn'', Job_failure ''Erro desconhecido'')]\<rparr>,
      responses = rs, waiting = w, spawns = 3\<rparr>
   = \<lparr>results_now = launch_failure_results, responses = rs @ [launch_failure_results],
      waiting = remove1 (1, k, [Close (Some 0)]) w, spawns = 3\<rparr>"
  by (auto simp: fire_def processParameter_def launch_failure_context_def
      launch_failure_workers_def success_run_def recordClose_def empty_results_def
      launch_failure_results_def Let_def descriptiveName_def cleanPropertyName_def
      toLowerCase_def lower_char_def parseStatistics_def stats_at_def std_at_def is_numchar_def
      is_digit_def is_space_def sample_parseFloat_def)

lemma launch_failure_fire_again:
  "k = 1 \<or> k = 2 \<Longrightarrow>
   fire launch_failure_context (1, k, [Close (Some 0)])
     \<lparr>results_now = launch_failure_results, responses = rs, waiting = w, spawns = 3\<rparr>
   = \<lparr>results_now = launch_failure_results, responses = rs @ [launch_failure_results],
      waiting = remove1 (1, k, [Close (Some 0)]) w, spawns = 3\<rparr>"
  by (auto simp: fire_def processParameter_def launch_failure_context_def
      launch_failure_workers_def success_run_def recordClose_def
      launch_failure_results_def Let_def descriptiveName_def cleanPropertyName_def
      toLowerCase_def lower_char_def parseStatistics_def stats_at_def std_at_def is_numchar_def
      is_digit_def is_space_def sample_parseFloat_def)

lemma launch_failure_early:
  "fire launch_failure_context (1, 1, [Close (Some 0)])
     \<lparr>results_now = empty_results\<lparr>interpolations :=
          [(''Zn'', Job_failure ''Erro ao executar Python: spawn python3 EAGAIN'')]\<rparr>,
      responses = [],
      waiting = [(0, 0, [Close (Some (- 11))]), (1, 1, [Close (Some 0)])], spawns = 2\<rparr>
   = \<lparr>results_now = launch_error_results, responses = [launch_error_results],
      waiting = [(0, 0, [Close (Some (- 11))])], spawns = 2\<rparr>"
  by (simp add: fire_def processParameter_def launch_failure_context_def
      launch_failure_workers_def success_run_def recordClose_def empty_results_def
      launch_error_results_def Let_def descriptiveName_def cleanPropertyName_def
      toLowerCase_def lower_char_def parseStatistics_def stats_at_def std_at_def is_numchar_def
      is_digit_def is_space_def sample_parseFloat_def)

lemma launch_failure_late_close:
  "fire launch_failure_context (0, 0, [Close (Some (- 11))])
     \<lparr>results_now = launch_error_results, responses = [launch_error_results],
      waiting = [(0, 0, [Close (Some (- 11))])], spawns = 2\<rparr>
   = \<lparr>results_now = launch_failure_results\<lparr>interpolations :=
          [(''Zn'', Job_failure ''Erro desconhecido''),
           (''Cu'', Job_success ''/output/Cu_fazenda_idw_20260101.tif''
                      \<lparr>min_stat = Fin 0, max_stat = Fin 1, mean_stat = Fin 0.5,
                       std_stat = Fin 0.3\<rparr>)]\<rparr>,
      responses = [launch_error_results],
      waiting = [(1, 2, [Close (Some 0)])], spawns = 3\<rparr>"
  by (simp add: processParameter_def launch_failure_context_def launch_failure_workers_def
      success_run_def fire_def recordClose_def launch_error_results_def
      launch_failure_results_def)

lemma launch_failure_results_eq:
  "launch_failure_results\<lparr>interpolations :=
          [(''Zn'', Job_failure ''Erro desconhecido''),
           (''Cu'', Job_success ''/output/Cu_fazenda_idw_20260101.tif''
                      \<lparr>min_stat = Fin 0, max_stat = Fin 1, mean_stat = Fin 0.5,
                       std_stat = Fin 0.3\<rparr>)]\<rparr> = launch_failure_results"
  by (simp add: launch_failure_results_def)

text \<open>
  C2 fails on the code when a worker cannot be launched. Request: the parameters \<open>Zn\<close>
  and \<open>Cu\<close>; the worker of \<open>Zn\<close> cannot be launched, every worker of \<open>Cu\<close> succeeds.
  Whatever the order in which the events of different workers fire, after four events the
  request has spawned three workers (two of them for \<open>Cu\<close>), has called \<open>res.json\<close> twice,
  and holds for \<open>Zn\<close> the fixed text \<open>Erro desconhecido\<close> instead of the launch error. The
  first answer has the launch error only when a worker of \<open>Cu\<close> ends between the two
  events of the worker of \<open>Zn\<close>.
\<close>

theorem launch_failure_runs_batch_twice:
  "eventLoop launch_failure_context pick 4 (processParameter launch_failure_context 0 initial_state)
     \<in> {\<lparr>results_now = launch_failure_results,
          responses = [launch_failure_results, launch_failure_results],
          waiting = [], spawns = 3\<rparr>,
         \<lparr>results_now = launch_failure_results,
          responses = [launch_error_results, launch_failure_results],
          waiting = [], spawns = 3\<rparr>}"
proof -
  let ?c = launch_failure_context
  let ?e = "(0::nat, 0::nat, [Spawn_error ''spawn python3 EAGAIN'', Close (Some (- 11))])"
  let ?z = "(0::nat, 0::nat, [Close (Some (- 11))])"
  let ?cu = "\<lambda>k::nat. (1::nat, k, [Close (Some 0)])"
  let ?zn = "empty_results\<lparr>interpolations :=
          [(''Zn'', Job_failure ''Erro ao executar Python: spawn python3 EAGAIN'')]\<rparr>"
  let ?un = "empty_results\<lparr>interpolations := [(''Zn'', Job_failure ''Erro desconhecido'')]\<rparr>"
  let ?s0 = "\<lparr>results_now = empty_results, responses = [], waiting = [?e], spawns = 1\<rparr>"
  let ?s1 = "\<lparr>results_now = ?zn, responses = [], waiting = [?z, ?cu 1], spawns = 2\<rparr>"
  let ?sA = "\<lparr>results_now = ?un, responses = [], waiting = [?cu 1, ?cu 2], spawns = 3\<rparr>"
  let ?sB = "\<lparr>results_now = launch_error_results, responses = [launch_error_results],
          waiting = [?z], spawns = 2\<rparr>"
  let ?sB2 = "\<lparr>results_now = launch_failure_results, responses = [launch_error_results],
          waiting = [?cu 2], spawns = 3\<rparr>"
  let ?fA = "\<lparr>results_now = launch_failure_results,
         responses = [launch_failure_results, launch_failure_results], waiting = [], spawns = 3\<rparr>"
  let ?fB = "\<lparr>results_now = launch_failure_results,
         responses = [launch_error_results, launch_failure_results], waiting = [], spawns = 3\<rparr>"
  have r0: "ready ?s0 = [?e]" and r1: "ready ?s1 = [?z, ?cu 1]"
    and rA: "ready ?sA = [?cu 1, ?cu 2]" and rB: "ready ?sB = [?z]"
    and rB2: "ready ?sB2 = [?cu 2]"
    by (simp_all add: ready_def)
  have "eventLoop ?c pick 4 ?s0 = eventLoop ?c pick 3 (fire ?c ?e ?s0)"
    using eventLoop_one_ready[OF r0, of ?c pick "num.Bit0 (num.Bit0 num.One)"] by simp
  also have "\<dots> = eventLoop ?c pick 3 ?s1"
    by (simp only: launch_failure_error)
  also have "\<dots> = eventLoop ?c pick 2 (fire ?c (if even (pick ?s1) then ?z else ?cu 1) ?s1)"
    using eventLoop_two_ready[OF r1, of ?c pick "num.Bit1 num.One"] by simp
  finally have start: "eventLoop ?c pick 4 ?s0
      = eventLoop ?c pick 2 (fire ?c (if even (pick ?s1) then ?z else ?cu 1) ?s1)" .
  have "eventLoop ?c pick 4 ?s0 = ?fA \<or> eventLoop ?c pick 4 ?s0 = ?fB"
  proof (cases "even (pick ?s1)")
    case True
    obtain k :: nat where k: "k = 1 \<or> k = 2"
      and w: "(if even (pick ?sA) then ?cu 1 else ?cu 2) = ?cu k"
      by (cases "even (pick ?sA)") auto
    let ?k' = "3 - k"
    from k have k': "?k' = 1 \<or> ?k' = 2"
      and rm: "remove1 (?cu k) [?cu 1, ?cu 2] = [?cu ?k']"
      by auto
    let ?sA2 = "\<lparr>results_now = launch_failure_results, responses = [launch_failure_results],
          waiting = [?cu ?k'], spawns = 3\<rparr>"
    have "fire ?c (?cu k) ?sA
        = \<lparr>results_now = launch_failure_results, responses = [] @ [launch_failure_results],
           waiting = remove1 (?cu k) [?cu 1, ?cu 2], spawns = 3\<rparr>"
      by (rule launch_failure_fire[OF k])
    then have s2: "fire ?c (?cu k) ?sA = ?sA2"
      by (simp only: rm append_Nil)
    have "fire ?c (?cu ?k') ?sA2
        = \<lparr>results_now = launch_failure_results,
           responses = [launch_failure_results] @ [launch_failure_results],
           waiting = remove1 (?cu ?k') [?cu ?k'], spawns = 3\<rparr>"
      by (rule launch_failure_fire_again[OF k'])
    then have s3: "fire ?c (?cu ?k') ?sA2 = ?fA"
      by (simp only: remove1.simps append.simps simp_thms if_True)
    have rA2: "ready ?sA2 = [?cu ?k']"
      by (simp add: ready_def)
    from True have "eventLoop ?c pick 4 ?s0 = eventLoop ?c pick 2 (fire ?c ?z ?s1)"
      by (simp only: start if_True)
    also have "\<dots> = eventLoop ?c pick 2 ?sA"
      by (simp only: launch_failure_close)
    also have "\<dots> = eventLoop ?c pick 1 (fire ?c (if even (pick ?sA) then ?cu 1 else ?cu 2) ?sA)"
      using eventLoop_two_ready[OF rA, of ?c pick "num.Bit0 num.One"] by simp
    also have "\<dots> = eventLoop ?c pick 1 ?sA2"
      by (simp only: w s2)
    also have "\<dots> = ?fA"
      by (simp only: eventLoop_last_ready[OF rA2] s3)
    finally show ?thesis by (rule disjI1)
  next
    case False
    have f3: "fire ?c (?cu 2) ?sB2 = ?fB"
      using launch_failure_fire_again[of 2 "[launch_error_results]" "[?cu 2]"] by simp
    from False have "eventLoop ?c pick 4 ?s0 = eventLoop ?c pick 2 (fire ?c (?cu 1) ?s1)"
      by (simp only: start if_False)
    also have "\<dots> = eventLoop ?c pick 2 ?sB"
      by (simp only: launch_failure_early)
    also have "\<dots> = eventLoop ?c pick 1 (fire ?c ?z ?sB)"
      using eventLoop_one_ready[OF rB, of ?c pick "num.Bit0 num.One"] by simp
    also have "\<dots> = eventLoop ?c pick 1 ?sB2"
      by (simp only: launch_failure_late_close launch_failure_results_eq)
    also have "\<dots> = ?fB"
      by (simp only: eventLoop_last_ready[OF rB2] f3)
    finally show ?thesis by (rule disjI2)
  qed
  then show ?thesis
    by (simp only: launch_failure_start insert_iff empty_iff simp_thms)
qed

lemma parseStatistics_std:
  "std_stat (parseStatistics pf out) =
     (case stdMatch out of
        None \<Rightarrow> js_div_pos (js_sub (max_stat (parseStatistics pf out)) (min_stat (parseStatistics pf out))) 4
      | Some g \<Rightarrow> pf g)"
  by (simp add: parseStatistics_def Let_def split: option.split prod.split)

lemma parseStatistics_no_marker:
  "statsMatch out = None \<Longrightarrow>
   parseStatistics pf out =
     \<lparr>min_stat = Fin 0, max_stat = Fin 1, mean_stat = Fin 0.5,
      std_stat = (case stdMatch out of None \<Rightarrow> Fin 0.25 | Some g \<Rightarrow> pf g)\<rparr>"
  by (simp add: parseStatistics_def Let_def split: option.split)

text \<open>
  C6. For a worker whose \<open>close\<close> event carries the exit code 0 and that leaves its
  raster, when the standard output has no match of the \<open>STATS\<close> pattern (by
  \<open>statsMatch_None_iff\<close>: no occurrence of the marker anywhere), the job is recorded as a
  success with min 0, max 1, mean 0.5, and the standard deviation is 0.25 unless the \<open>std\<close>
  pattern matches, in which case it is the parsed group. In general the standard deviation
  is the parsed group of the \<open>std\<close> pattern when it matches and (max - min) / 4 otherwise.
\<close>

theorem statistics_default_without_marker:
  "(tiffExists run \<and> statsMatch (stdout run) = None \<longrightarrow>
      (\<exists>file. map_of (interpolations (recordClose ctx param run (Some 0) res)) param =
         Some (Job_success file
                 \<lparr>min_stat = Fin 0, max_stat = Fin 1, mean_stat = Fin 0.5,
                  std_stat = (case stdMatch (stdout run) of
                                None \<Rightarrow> Fin 0.25
                              | Some g \<Rightarrow> parseFloat ctx g)\<rparr>)))
   \<and> std_stat (parseStatistics pf out) =
       (case stdMatch out of
          None \<Rightarrow> js_div_pos (js_sub (max_stat (parseStatistics pf out))
                                (min_stat (parseStatistics pf out))) 4
        | Some g \<Rightarrow> pf g)"
proof -
  have "\<exists>file. map_of (interpolations (recordClose ctx param run (Some 0) res)) param =
         Some (Job_success file
                 \<lparr>min_stat = Fin 0, max_stat = Fin 1, mean_stat = Fin 0.5,
                  std_stat = (case stdMatch (stdout run) of
                                None \<Rightarrow> Fin 0.25
                              | Some g \<Rightarrow> parseFloat ctx g)\<rparr>)"
    if "tiffExists run" "statsMatch (stdout run) = None"
    using that by (simp add: recordClose_def Let_def parseStatistics_no_marker update_conv')
  then show ?thesis
    using parseStatistics_std[of pf out] by blast
qed

theorem statistics_default_without_marker_witness:
  "map_of (interpolations
      (recordClose sample_context ''Cu'' (sample_workers 1) (Some 0) empty_results)) ''Cu''
     = Some (Job_success ''/output/Cu_fazenda_idw_20260101.tif''
               \<lparr>min_stat = Fin 0, max_stat = Fin 1, mean_stat = Fin 0.5, std_stat = Fin 0.3\<rparr>)"
  using statistics_default_without_marker[of "sample_workers 1" sample_context "''Cu''" empty_results
      sample_parseFloat "''done std: 0.3''"]
  by (simp add: sample_workers_def success_run_def sample_context_def empty_results_def
      recordClose_def Let_def
      descriptiveName_def cleanPropertyName_def toLowerCase_def lower_char_def
      stats_at_def std_at_def is_numchar_def is_digit_def is_space_def sample_parseFloat_def
      update_conv')

text \<open>For a point, and for a line that starts with a position, the bounds are that position.\<close>

lemma Math_min_single: "Math_min [x] = x"
  by (cases x) (simp_all add: Math_min_def)

lemma Math_max_single: "Math_max [x] = x"
  by (cases x) (simp_all add: Math_max_def)

lemma computeBounds_single_point:
  "computeBounds \<lparr>ctype = t, features = [\<lparr>geometry = Some \<lparr>gtype = ''Point'',
       coordinates = Some (CArr (CNum lon # CNum lat # rest))\<rparr>, properties = ps\<rparr>]\<rparr>
   = Inr (Some ((lat, lon), (lat, lon)))"
  by (simp add: computeBounds_def representatives_def hasCoordinates_def
      representative_def toNumber_opt_def Math_min_single Math_max_single Let_def)

lemma computeBounds_single_line:
  "computeBounds \<lparr>ctype = t, features = [\<lparr>geometry = Some \<lparr>gtype = ''LineString'',
       coordinates = Some (CArr (CArr (CNum lon # CNum lat # rest) # others))\<rparr>, properties = ps\<rparr>]\<rparr>
   = Inr (Some ((lat, lon), (lat, lon)))"
  by (simp add: computeBounds_def representatives_def hasCoordinates_def
      representative_def toNumber_opt_def Math_min_single Math_max_single Let_def)

text \<open>
  C7 fails on the code for a polygon: \<open>coordinates[0]\<close> is the first ring, not the first
  position, so the two values read from it are positions, and the four bounds are \<open>NaN\<close>
  instead of the bounds of the first position (0, 0).
\<close>

theorem computeBounds_polygon_NaN:
  "computeBounds polygon_collection = Inr (Some ((NaN, NaN), (NaN, NaN)))"
  by (simp add: computeBounds_def polygon_collection_def representatives_def hasCoordinates_def
      representative_def toNumber_opt_def Math_min_def Math_max_def Let_def)

lemma strip_literal_iff: "strip_literal lit s = Some r \<longleftrightarrow> s = lit @ r"
  by (induction lit s rule: strip_literal.induct) auto

lemma num_group_Some:
  "num_group s = Some (g, r) \<Longrightarrow> numeric_text g \<and> s = g @ r"
  by (auto simp: num_group_def Let_def numeric_text_def split: if_splits dest: set_takeWhileD)

lemma num_group_stop:
  "numeric_text g \<Longrightarrow> \<not> is_numchar c \<Longrightarrow> num_group (g @ c # r) = Some (g, c # r)"
  by (simp add: num_group_def Let_def numeric_text_def takeWhile_tail dropWhile_append)

lemma num_group_start:
  "numeric_text g \<Longrightarrow> num_group (g @ r) \<noteq> None"
  by (cases g) (auto simp: num_group_def Let_def numeric_text_def)

lemma comma_not_numchar: "\<not> is_numchar CHR '',''"
  by (simp add: is_numchar_def is_digit_def)

lemma stats_at_marker:
  assumes "stats_marker_at s"
  shows "stats_at s \<noteq> None"
proof -
  from assms obtain g1 g2 g3 rest
    where s: "s = ''STATS: min='' @ g1 @ '', max='' @ g2 @ '', mean='' @ g3 @ rest"
      and g: "numeric_text g1" "numeric_text g2" "numeric_text g3"
    unfolding stats_marker_at_def by (elim exE conjE) (rule that)
  have l1: "strip_literal ''STATS: min='' s = Some (g1 @ '', max='' @ g2 @ '', mean='' @ g3 @ rest)"
    unfolding strip_literal_iff s by simp
  have n1: "num_group (g1 @ '', max='' @ g2 @ '', mean='' @ g3 @ rest)
      = Some (g1, '', max='' @ g2 @ '', mean='' @ g3 @ rest)"
    using num_group_stop[OF g(1) comma_not_numchar] by simp
  have l2: "strip_literal '', max='' ('', max='' @ g2 @ '', mean='' @ g3 @ rest)
      = Some (g2 @ '', mean='' @ g3 @ rest)"
    unfolding strip_literal_iff by simp
  have n2: "num_group (g2 @ '', mean='' @ g3 @ rest) = Some (g2, '', mean='' @ g3 @ rest)"
    using num_group_stop[OF g(2) comma_not_numchar] by simp
  have l3: "strip_literal '', mean='' ('', mean='' @ g3 @ rest) = Some (g3 @ rest)"
    unfolding strip_literal_iff by simp
  from num_group_start[OF g(3), of rest] obtain g r where n3: "num_group (g3 @ rest) = Some (g, r)"
    by (cases "num_group (g3 @ rest)") auto
  show ?thesis
    unfolding stats_at_def by (simp only: l1 n1 l2 n2 l3 n3 option.case prod.case) simp
qed

lemma marker_stats_at:
  assumes "stats_at s = Some (a, b, c)"
  shows "stats_marker_at s \<and> numeric_text a \<and> numeric_text b \<and> numeric_text c"
proof -
  from assms obtain r1 r2 r3 r4 r5 r6
    where "strip_literal ''STATS: min='' s = Some r1" "num_group r1 = Some (a, r2)"
      "strip_literal '', max='' r2 = Some r3" "num_group r3 = Some (b, r4)"
      "strip_literal '', mean='' r4 = Some r5" "num_group r5 = Some (c, r6)"
    unfolding stats_at_def by (auto split: option.splits prod.splits)
  then have "s = ''STATS: min='' @ r1" "numeric_text a \<and> r1 = a @ r2" "r2 = '', max='' @ r3"
    "numeric_text b \<and> r3 = b @ r4" "r4 = '', mean='' @ r5" "numeric_text c \<and> r5 = c @ r6"
    using strip_literal_iff num_group_Some by blast+
  then have "s = ''STATS: min='' @ a @ '', max='' @ b @ '', mean='' @ c @ r6"
    "numeric_text a" "numeric_text b" "numeric_text c"
    by simp_all
  then show ?thesis unfolding stats_marker_at_def by blast
qed

lemma stats_at_iff_marker: "stats_at s \<noteq> None \<longleftrightarrow> stats_marker_at s"
proof
  assume "stats_at s \<noteq> None"
  then obtain a b c where "stats_at s = Some (a, b, c)" by (cases "stats_at s") auto
  then show "stats_marker_at s" using marker_stats_at by blast
next
  assume "stats_marker_at s"
  then show "stats_at s \<noteq> None" by (rule stats_at_marker)
qed

lemma stats_at_Nil: "stats_at [] = None"
  by (simp add: stats_at_def)

lemma statsMatch_None_iff:
  "statsMatch s = None \<longleftrightarrow> (\<forall>pre suf. s = pre @ suf \<longrightarrow> \<not> stats_marker_at suf)"
proof (induction s)
  case Nil
  then show ?case using stats_at_iff_marker[of "[]"] by (simp add: stats_at_Nil)
next
  case (Cons c cs)
  have "(\<forall>pre suf. c # cs = pre @ suf \<longrightarrow> \<not> stats_marker_at suf)
      \<longleftrightarrow> \<not> stats_marker_at (c # cs) \<and> (\<forall>pre suf. cs = pre @ suf \<longrightarrow> \<not> stats_marker_at suf)"
    (is "?L \<longleftrightarrow> ?R")
  proof
    assume l: ?L
    have "\<not> stats_marker_at suf" if "cs = pre @ suf" for pre suf
    proof -
      from that have "c # cs = (c # pre) @ suf" by simp
      with l show ?thesis by blast
    qed
    moreover from l have "\<not> stats_marker_at (c # cs)" by (metis append_Nil)
    ultimately show ?R by blast
  next
    assume r: ?R
    show ?L
    proof (intro allI impI)
      fix pre suf assume e: "c # cs = pre @ suf"
      show "\<not> stats_marker_at suf"
      proof (cases pre)
        case Nil
        with e r show ?thesis by simp
      next
        case (Cons d p)
        with e have "cs = p @ suf" by simp
        with r show ?thesis by blast
      qed
    qed
  qed
  with Cons.IH stats_at_iff_marker[of "c # cs"] show ?case
    by (cases "stats_at (c # cs)") auto
qed

end
